theory Spec2Isabelle
  imports Complex_Main
begin

section \<open>Strings and formatting\<close>

text \<open>
  Go strings are byte sequences; they are modelled as \<open>string\<close>. The three functions of
  package \<open>strings\<close> the program uses are written out, and so is the decimal rendering
  behind \<open>fmt.Sprintf("%d", n)\<close>.
\<close>

fun HasPrefix :: "string \<Rightarrow> string \<Rightarrow> bool" where
  "HasPrefix s [] = True"
| "HasPrefix [] (p # ps) = False"
| "HasPrefix (c # cs) (p # ps) = (c = p \<and> HasPrefix cs ps)"

fun Contains :: "string \<Rightarrow> string \<Rightarrow> bool" where
  "Contains [] sub = (sub = [])"
| "Contains (c # cs) sub = (HasPrefix (c # cs) sub \<or> Contains cs sub)"

definition TrimPrefix :: "string \<Rightarrow> string \<Rightarrow> string" where
  "TrimPrefix s p = (if HasPrefix s p then drop (length p) s else s)"

definition digit :: "nat \<Rightarrow> char" where
  "digit d = ''0123456789'' ! d"

function Itoa :: "nat \<Rightarrow> string" where
  "Itoa n = (if n < 10 then [digit n] else Itoa (n div 10) @ [digit (n mod 10)])"
  by pat_completeness auto
termination
  by (relation "measure (\<lambda>n. n)") auto

declare Itoa.simps [simp del]

definition Sprintf_d :: "int \<Rightarrow> string" where
  "Sprintf_d i = (if i < 0 then CHR ''-'' # Itoa (nat (- i)) else Itoa (nat i))"

section \<open>Outcomes of a call\<close>

text \<open>
  A Go call either returns, or panics (index out of range, nil dereference), or never
  returns because the goroutine waits for a \<open>sync.Mutex\<close> it holds itself:
  \<open>sync.Mutex\<close> is not reentrant, and the program releases a mutex only from the
  function that took it, so nobody else will ever release it. Each outcome carries the
  state reached.
\<close>

datatype ('a, 's) outcome = Returns 'a 's | Blocks 's | Panics 's

section \<open>The remote service, as the client library presents it\<close>

text \<open>
  The data types of the Redfish client library, restricted to the fields the program
  reads (and the status of a power-control entry, which it does not read). A \<open>float64\<close> is modelled as a \<open>real\<close>: the program compares readings with 0,
  stores the constants 0, 1 and 2, and otherwise only carries readings through. The
  sub-resources of a chassis (\<open>chassis.Power()\<close>, \<open>chassis.Thermal()\<close>) and of a system
  (\<open>system.Processors()\<close>) are remote reads; their replies are fields of the value.
\<close>

record Status =
  Health :: string
  State :: string

record PowerSupply =
  psu_Name :: string
  psu_Status :: Status
  PowerInputWatts :: real
  PowerOutputWatts :: real

record Voltage =
  volt_Name :: string
  volt_Status :: Status
  ReadingVolts :: real

record PowerControl =
  pc_Status :: Status
  PowerConsumedWatts :: real

record Power =
  PowerSupplies :: "PowerSupply list"
  Voltages :: "Voltage list"
  PowerControls :: "PowerControl list"

record Temperature =
  temp_Name :: string
  temp_Status :: Status
  ReadingCelsius :: real

record Fan =
  fan_Name :: string
  fan_Status :: Status
  Reading :: real

record Thermal =
  Temperatures :: "Temperature list"
  Fans :: "Fan list"

record Chassis =
  ID :: string
  Power_reply :: "string + Power"
  Thermal_reply :: "string + Thermal"

record Processor =
  cpu_ID :: string
  cpu_Status :: Status
  TotalCores :: int
  Model :: string

record MemorySummary =
  TotalSystemMemoryGiB :: real
  mem_Status :: Status

record ComputerSystem =
  PowerState :: string
  Memory :: MemorySummary
  Processors_reply :: "string + Processor list"

text \<open>
  A connection handle is a number. What the remote answers depends on the handle the
  request is sent over (an expired session answers 401 on its handle, a fresh one does
  not); \<open>Dial\<close> is \<open>gofish.Connect\<close>, asked for the \<open>n\<close>-th time with a configuration.
  A chassis list is a slice of pointers, so an entry may be nil; a failed listing may
  still carry the items that could be retrieved.
\<close>

type_synonym conn = nat

record Config =
  Host :: string
  Username :: string
  Password :: string
  Insecure :: bool

record Backend =
  Dial :: "Config \<Rightarrow> nat \<Rightarrow> string + conn"
  ChassisList :: "conn \<Rightarrow> Chassis option list \<times> string option"
  SystemsList :: "conn \<Rightarrow> string + ComputerSystem list"
  Elapsed :: "string \<Rightarrow> real"

section \<open>Client (internal/redfish/client.go)\<close>

text \<open>
  \<open>mutex\<close> says whether the mutex is held. \<open>logouts\<close> and \<open>dials\<close> are ghost fields: the
  handles on which \<open>Logout\<close> was called, in order, and the number of connection
  attempts made so far.
\<close>

record Client =
  APIClient :: "conn option"
  Service :: "conn option"
  config :: Config
  mutex :: bool
  logouts :: "conn list"
  dials :: nat

definition connect :: "Backend \<Rightarrow> Config \<Rightarrow> nat \<Rightarrow> string + Client" where
  "connect b cfg n =
     (case Dial b cfg n of
        Inl err \<Rightarrow> Inl (''failed to connect to Redfish API: '' @ err)
      | Inr h \<Rightarrow> Inr \<lparr>APIClient = Some h, Service = Some h, config = cfg, mutex = False,
                     logouts = [], dials = Suc n\<rparr>)"

definition NewClient :: "Backend \<Rightarrow> Config \<Rightarrow> string + Client" where
  "NewClient b cfg = (case connect b cfg 0 of Inl err \<Rightarrow> Inl err | Inr client \<Rightarrow> Inr client)"

text \<open>\<open>c.mutex.Lock(); defer c.mutex.Unlock()\<close> around a function body.\<close>

definition locked :: "(Client \<Rightarrow> ('a, Client) outcome) \<Rightarrow> Client \<Rightarrow> ('a, Client) outcome" where
  "locked body c =
     (if mutex c then Blocks c
      else case body (c\<lparr>mutex := True\<rparr>) of
             Returns r c' \<Rightarrow> Returns r (c'\<lparr>mutex := False\<rparr>)
           | Panics c' \<Rightarrow> Panics (c'\<lparr>mutex := False\<rparr>)
           | Blocks c' \<Rightarrow> Blocks c')"

definition Close :: "Client \<Rightarrow> (unit, Client) outcome" where
  "Close = locked (\<lambda>c.
     case APIClient c of
       None \<Rightarrow> Returns () c
     | Some h \<Rightarrow> Returns () (c\<lparr>logouts := logouts c @ [h]\<rparr>))"

definition reconnect :: "Backend \<Rightarrow> Client \<Rightarrow> (string option, Client) outcome" where
  "reconnect b = locked (\<lambda>c.
     case (case APIClient c of None \<Rightarrow> Returns () c | Some h \<Rightarrow> Close c) of
       Blocks c1 \<Rightarrow> Blocks c1
     | Panics c1 \<Rightarrow> Panics c1
     | Returns u c1 \<Rightarrow>
         (case connect b (config c1) (dials c1) of
            Inl err \<Rightarrow> Returns (Some err) (c1\<lparr>dials := Suc (dials c1)\<rparr>)
          | Inr newClient \<Rightarrow>
              Returns None (c1\<lparr>APIClient := APIClient newClient,
                                Service := Service newClient,
                                dials := Suc (dials c1)\<rparr>)))"

definition GetChassis :: "Backend \<Rightarrow> Client \<Rightarrow> (Chassis option list \<times> string option, Client) outcome" where
  "GetChassis b = locked (\<lambda>c.
     case Service c of
       None \<Rightarrow> Panics c
     | Some h \<Rightarrow> Returns (ChassisList b h) c)"

definition isAuthError :: "string option \<Rightarrow> bool" where
  "isAuthError err =
     (case err of
        None \<Rightarrow> False
      | Some errStr \<Rightarrow>
          Contains errStr ''401'' \<or> Contains errStr ''unauthorized'' \<or>
          Contains errStr ''authentication'' \<or> Contains errStr ''session expired'')"

text \<open>The loop \<open>for _, ch := range chassis { if ch != nil && ch.ID == id { return ch, nil } }\<close>.\<close>

fun lookFor :: "string \<Rightarrow> Chassis option list \<Rightarrow> Chassis option" where
  "lookFor i [] = None"
| "lookFor i (None # rest) = lookFor i rest"
| "lookFor i (Some ch # rest) = (if ID ch = i then Some ch else lookFor i rest)"

definition GetMainChassis :: "Backend \<Rightarrow> Client \<Rightarrow> (string + Chassis, Client) outcome" where
  "GetMainChassis b = locked (\<lambda>c.
     case Service c of
       None \<Rightarrow> Panics c
     | Some h \<Rightarrow>
        (let (chassis, err) = ChassisList b h;
             pick = (\<lambda>chassis c'.
               if length chassis = 0 then Returns (Inl ''no chassis found'') c'
               else case lookFor ''1'' chassis of
                      Some ch \<Rightarrow> Returns (Inr ch) c'
                    | None \<Rightarrow> Returns (Inl ''main chassis (ID 1) not found'') c')
         in case err of
              None \<Rightarrow> pick chassis c
            | Some e \<Rightarrow>
                if Contains e ''failed to retrieve some items'' \<and> length chassis > 0
                then pick chassis c
                else if isAuthError err then
                  (case reconnect b c of
                     Blocks c1 \<Rightarrow> Blocks c1
                   | Panics c1 \<Rightarrow> Panics c1
                   | Returns (Some reconnectErr) c1 \<Rightarrow>
                       Returns (Inl (''failed to reconnect: '' @ reconnectErr @
                                     '' (original error: '' @ e @ '')'')) c1
                   | Returns None c1 \<Rightarrow>
                       (case Service c1 of
                          None \<Rightarrow> Panics c1
                        | Some h1 \<Rightarrow>
                           (let (chassis1, err1) = ChassisList b h1
                            in case err1 of
                                 Some e1 \<Rightarrow> Returns (Inl e1) c1
                               | None \<Rightarrow> pick chassis1 c1)))
                else Returns (Inl e) c))"

definition GetChassisWithID :: "Backend \<Rightarrow> string \<Rightarrow> Client \<Rightarrow> (string + Chassis, Client) outcome" where
  "GetChassisWithID b i =
     (if i = ''1'' then GetMainChassis b
      else locked (\<lambda>c.
        case Service c of
          None \<Rightarrow> Panics c
        | Some h \<Rightarrow>
           (let (chassis, err) = ChassisList b h;
                pick = (\<lambda>chassis c'.
                  if length chassis = 0 then Returns (Inl ''no chassis found'') c'
                  else case lookFor i chassis of
                         Some ch \<Rightarrow> Returns (Inr ch) c'
                       | None \<Rightarrow> Returns (Inl (''chassis with ID '' @ i @ '' not found'')) c')
            in case err of
                 None \<Rightarrow> pick chassis c
               | Some e \<Rightarrow>
                   if Contains e ''failed to retrieve some items'' \<and> length chassis > 0
                   then pick chassis c
                   else if isAuthError err then
                     (case reconnect b c of
                        Blocks c1 \<Rightarrow> Blocks c1
                      | Panics c1 \<Rightarrow> Panics c1
                      | Returns (Some reconnectErr) c1 \<Rightarrow>
                          Returns (Inl (''failed to reconnect: '' @ reconnectErr @
                                        '' (original error: '' @ e @ '')'')) c1
                      | Returns None c1 \<Rightarrow>
                          (case Service c1 of
                             None \<Rightarrow> Panics c1
                           | Some h1 \<Rightarrow>
                              (let (chassis1, err1) = ChassisList b h1
                               in case err1 of
                                    Some e1 \<Rightarrow> Returns (Inl e1) c1
                                  | None \<Rightarrow> pick chassis1 c1)))
                   else Returns (Inl e) c)))"

section \<open>Collectors (internal/collector)\<close>

text \<open>
  A metric sample: the name of its descriptor, its label values, its value. A collector
  ranges over a Go map to emit its samples, in no specified order, so what a collector
  emits is a set.
\<close>

datatype Sample = Sample string "string list" real

text \<open>
  \<open>BaseCollector\<close>: its mutex (held or not), the value of the scrape-duration gauge and
  the target. The duration measured by \<open>time.Since\<close> is supplied by \<open>Elapsed\<close>.
\<close>

record BaseCollector =
  col_mutex :: bool
  scrapeTime :: real
  target :: string

definition NewBaseCollector :: BaseCollector where
  "NewBaseCollector = \<lparr>col_mutex = False, scrapeTime = 0, target = ''''\<rparr>"

text \<open>\<open>c.mutex.Lock()\<close> followed by the rest of the function, and \<open>c.mutex.Unlock()\<close>.\<close>

definition Lock :: "'a BaseCollector_scheme \<Rightarrow>
    ('a BaseCollector_scheme \<Rightarrow> ('r, 'a BaseCollector_scheme) outcome) \<Rightarrow>
    ('r, 'a BaseCollector_scheme) outcome" where
  "Lock c rest = (if col_mutex c then Blocks c else rest (c\<lparr>col_mutex := True\<rparr>))"

definition Unlock :: "'a BaseCollector_scheme \<Rightarrow> 'a BaseCollector_scheme" where
  "Unlock c = c\<lparr>col_mutex := False\<rparr>"

text \<open>A deferred \<open>c.mutex.Unlock()\<close>: it runs when the function returns or panics.\<close>

definition deferUnlock :: "('r, 'a BaseCollector_scheme) outcome \<Rightarrow> ('r, 'a BaseCollector_scheme) outcome" where
  "deferUnlock out =
     (case out of
        Returns r c \<Rightarrow> Returns r (Unlock c)
      | Panics c \<Rightarrow> Panics (Unlock c)
      | Blocks c \<Rightarrow> Blocks c)"

text \<open>
  The deferred \<open>c.RecordScrapeTime(start)\<close>: it takes the mutex, sets the gauge and
  releases the mutex, when the function returns or panics.
\<close>

definition RecordScrapeTime :: "Backend \<Rightarrow> string \<Rightarrow> ('r, 'a BaseCollector_scheme) outcome \<Rightarrow>
    ('r, 'a BaseCollector_scheme) outcome" where
  "RecordScrapeTime b subsystem out =
     (case out of
        Returns r c \<Rightarrow>
          if col_mutex c then Blocks c else Returns r (c\<lparr>scrapeTime := Elapsed b subsystem\<rparr>)
      | Panics c \<Rightarrow>
          if col_mutex c then Blocks c else Panics (c\<lparr>scrapeTime := Elapsed b subsystem\<rparr>)
      | Blocks c \<Rightarrow> Blocks c)"

definition setTarget :: "string \<Rightarrow> 'a BaseCollector_scheme \<Rightarrow> (unit, 'a BaseCollector_scheme) outcome" where
  "setTarget t c = deferUnlock (Lock c (\<lambda>c1. Returns () (c1\<lparr>target := t\<rparr>)))"

subsection \<open>system.go\<close>

record systemReading =
  sys_powerState :: real
  sys_health :: real
  sys_cores :: int
  sys_name :: string
  sys_model :: string
  sys_totalMemoryGiB :: string

record SystemCollector = BaseCollector +
  sys_readings :: "string \<rightharpoonup> systemReading"
  firstCPUID :: string

definition NewSystemCollector :: SystemCollector where
  "NewSystemCollector =
     \<lparr>col_mutex = False, scrapeTime = 0, target = '''', sys_readings = Map.empty, firstCPUID = ''''\<rparr>"

text \<open>The loop over the processors (lines 96-113).\<close>

fun cpuLoop :: "real \<Rightarrow> Processor list \<Rightarrow> (string \<rightharpoonup> systemReading) \<Rightarrow> (string \<rightharpoonup> systemReading)" where
  "cpuLoop powerState [] readings = readings"
| "cpuLoop powerState (cpu # rest) readings =
     (let health = (if Health (cpu_Status cpu) \<noteq> ''''
                    then (if Health (cpu_Status cpu) = ''OK'' then 1 else 0)
                    else 2)
      in cpuLoop powerState rest
           (readings(cpu_ID cpu \<mapsto>
              \<lparr>sys_powerState = powerState, sys_health = health, sys_cores = TotalCores cpu,
               sys_name = cpu_ID cpu, sys_model = Model cpu, sys_totalMemoryGiB = ''''\<rparr>)))"

text \<open>
  \<open>fmt.Sprintf("%.0f", x)\<close> for a size \<open>x \<ge> 0\<close>: the nearest integer, ties to even.
\<close>

definition Sprintf_f0 :: "real \<Rightarrow> string" where
  "Sprintf_f0 x =
     (let f = \<lfloor>x\<rfloor>
      in Sprintf_d (if x - of_int f < 1 / 2 then f
                    else if 1 / 2 < x - of_int f then f + 1
                    else if even f then f else f + 1))"

definition zeroReading :: systemReading where
  "zeroReading = \<lparr>sys_powerState = 0, sys_health = 0, sys_cores = 0, sys_name = '''',
                  sys_model = '''', sys_totalMemoryGiB = ''''\<rparr>"

definition SystemCollector_Update :: "Backend \<Rightarrow> Client \<Rightarrow> SystemCollector \<Rightarrow>
    (string option, SystemCollector) outcome" where
  "SystemCollector_Update b client c0 = RecordScrapeTime b ''system''
     (case Service client of
        None \<Rightarrow> Panics c0
      | Some h \<Rightarrow>
         (case SystemsList b h of
            Inl err \<Rightarrow> Returns None c0
          | Inr systems \<Rightarrow>
             (case systems of
                [] \<Rightarrow> Panics c0
              | system # others \<Rightarrow>
                 deferUnlock (Lock c0 (\<lambda>c1.
                   let c2 = c1\<lparr>sys_readings := Map.empty\<rparr>;
                       powerState = (if PowerState system = ''On'' then 1 else 0)
                   in case Processors_reply system of
                        Inl err \<Rightarrow> Returns None c2
                      | Inr processors \<Rightarrow>
                         (let c3 = (case processors of
                                      [] \<Rightarrow> c2
                                    | cpu0 # cpus \<Rightarrow> c2\<lparr>firstCPUID := cpu_ID cpu0\<rparr>);
                              c4 = c3\<lparr>sys_readings := cpuLoop powerState processors (sys_readings c3)\<rparr>;
                              totalMemoryGiB = Sprintf_f0 (TotalSystemMemoryGiB (Memory system));
                              memoryHealth =
                                (if Health (mem_Status (Memory system)) \<noteq> ''''
                                 then (if Health (mem_Status (Memory system)) = ''OK'' then 1 else 0)
                                 else 2)
                          in if sys_readings c4 \<noteq> Map.empty
                             then
                               (let reading = (case sys_readings c4 (firstCPUID c4) of
                                                 Some r \<Rightarrow> r
                                               | None \<Rightarrow> zeroReading)
                                in Returns None
                                     (c4\<lparr>sys_readings := (sys_readings c4)(firstCPUID c4 \<mapsto>
                                            reading\<lparr>sys_health := memoryHealth,
                                                    sys_powerState := powerState,
                                                    sys_totalMemoryGiB := totalMemoryGiB\<rparr>)\<rparr>))
                             else Returns None c4))))))"

definition systemSamples :: "string \<Rightarrow> systemReading \<Rightarrow> Sample set" where
  "systemSamples first reading =
     (if sys_name reading = first
      then {Sample ''ipmi_system_power_state'' [] (sys_powerState reading),
            Sample ''ipmi_memory_health'' [sys_totalMemoryGiB reading] (sys_health reading)}
      else {})
     \<union> {Sample ''ipmi_cpu_health''
            [sys_name reading, sys_model reading, Sprintf_d (sys_cores reading)]
            (sys_health reading)}"

definition SystemCollector_Collect :: "SystemCollector \<Rightarrow> (Sample set, SystemCollector) outcome" where
  "SystemCollector_Collect c = deferUnlock (Lock c (\<lambda>c1.
     Returns ((\<Union>reading \<in> ran (sys_readings c1). systemSamples (firstCPUID c1) reading)
              \<union> {Sample ''ipmi_system_scrape_duration_seconds'' [] (scrapeTime c1)}) c1))"

subsection \<open>sensors.go\<close>

record sensorReading =
  sn_value :: real
  sn_health :: real
  sn_name :: string
  sn_sensorType :: string

record SensorCollector = BaseCollector +
  sn_readings :: "string \<rightharpoonup> sensorReading"

definition NewSensorCollector :: SensorCollector where
  "NewSensorCollector =
     \<lparr>col_mutex = False, scrapeTime = 0, target = '''', sn_readings = Map.empty\<rparr>"

text \<open>\<open>utils.Round\<close>: \<open>math.Round\<close> rounds half away from zero.\<close>

definition math_Round :: "real \<Rightarrow> real" where
  "math_Round x = (if x < 0 then - of_int \<lfloor>- x + 1 / 2\<rfloor> else of_int \<lfloor>x + 1 / 2\<rfloor>)"

definition Round :: "real \<Rightarrow> nat \<Rightarrow> real" where
  "Round num places = math_Round (num * 10 ^ places) / 10 ^ places"

fun tempLoop :: "Temperature list \<Rightarrow> (string \<rightharpoonup> sensorReading) \<Rightarrow> (string \<rightharpoonup> sensorReading)" where
  "tempLoop [] readings = readings"
| "tempLoop (temp # rest) readings =
     (if temp_Name temp = '''' then tempLoop rest readings
      else
        let health = (if Health (temp_Status temp) \<noteq> ''''
                      then (if Health (temp_Status temp) = ''OK'' then 1 else 0)
                      else 2)
        in tempLoop rest
             (readings(temp_Name temp \<mapsto>
                \<lparr>sn_value = ReadingCelsius temp, sn_health = health,
                 sn_name = temp_Name temp, sn_sensorType = ''temperature''\<rparr>)))"

fun voltLoop :: "Voltage list \<Rightarrow> (string \<rightharpoonup> sensorReading) \<Rightarrow> (string \<rightharpoonup> sensorReading)" where
  "voltLoop [] readings = readings"
| "voltLoop (volt # rest) readings =
     (if volt_Name volt = '''' then voltLoop rest readings
      else
        let health = (if Health (volt_Status volt) \<noteq> ''''
                      then (if Health (volt_Status volt) = ''OK'' then 1 else 0)
                      else 2)
        in voltLoop rest
             (readings(volt_Name volt \<mapsto>
                \<lparr>sn_value = Round (ReadingVolts volt) 3, sn_health = health,
                 sn_name = volt_Name volt, sn_sensorType = ''voltage''\<rparr>)))"

definition SensorCollector_Update :: "Backend \<Rightarrow> Client \<Rightarrow> SensorCollector \<Rightarrow>
    (string option, SensorCollector) outcome" where
  "SensorCollector_Update b client c0 = RecordScrapeTime b ''sensor''
     (Lock c0 (\<lambda>c1.
        let c2 = Unlock (c1\<lparr>sn_readings := Map.empty\<rparr>)
        in case GetChassisWithID b ''1'' client of
             Blocks cl \<Rightarrow> Blocks c2
           | Panics cl \<Rightarrow> Panics c2
           | Returns (Inl err) cl \<Rightarrow> Returns None c2
           | Returns (Inr chassis) cl \<Rightarrow>
               deferUnlock (Lock c2 (\<lambda>c3.
                 case Thermal_reply chassis of
                   Inl err \<Rightarrow> Returns None c3
                 | Inr thermal \<Rightarrow>
                    (let c4 = c3\<lparr>sn_readings := tempLoop (Temperatures thermal) (sn_readings c3)\<rparr>
                     in case Power_reply chassis of
                          Inl err \<Rightarrow>
                            if sn_readings c4 \<noteq> Map.empty then Returns None c4
                            else Returns None c4
                        | Inr powerData \<Rightarrow>
                            Returns None
                              (c4\<lparr>sn_readings := voltLoop (Voltages powerData) (sn_readings c4)\<rparr>))))))"

definition sensorSamples :: "sensorReading \<Rightarrow> Sample set" where
  "sensorSamples reading =
     (if sn_sensorType reading = ''temperature''
      then {Sample ''ipmi_temperature_celsius'' [sn_name reading] (sn_value reading),
            Sample ''ipmi_temperature_health'' [sn_name reading] (sn_health reading)}
      else if sn_sensorType reading = ''voltage''
      then {Sample ''ipmi_voltage_volts'' [sn_name reading] (sn_value reading),
            Sample ''ipmi_voltage_health'' [sn_name reading] (sn_health reading)}
      else {})"

definition SensorCollector_Collect :: "SensorCollector \<Rightarrow> (Sample set, SensorCollector) outcome" where
  "SensorCollector_Collect c = deferUnlock (Lock c (\<lambda>c1.
     Returns ((\<Union>reading \<in> ran (sn_readings c1). sensorSamples reading)
              \<union> {Sample ''ipmi_sensor_scrape_duration_seconds'' [] (scrapeTime c1)}) c1))"

subsection \<open>power.go\<close>

record psuReading =
  rd_health :: real
  rd_acPower :: real
  rd_dcPower :: real
  rd_name :: string

text \<open>
  \<open>queried\<close> is a ghost field: the identifiers of the chassis whose \<open>Power()\<close> was read
  during the fallback scan, in order.
\<close>

record PowerCollector = BaseCollector +
  psu_readings :: "string \<rightharpoonup> psuReading"
  queried :: "string list"

definition NewPowerCollector :: PowerCollector where
  "NewPowerCollector =
     \<lparr>col_mutex = False, scrapeTime = 0, target = '''', psu_readings = Map.empty, queried = []\<rparr>"

text \<open>
  The loop over the power supplies (lines 80-105, and again, word for word, lines
  136-161), from a count \<open>psuCount\<close>; it returns the final count with the readings.
\<close>

fun psuLoop :: "PowerSupply list \<Rightarrow> nat \<Rightarrow> (string \<rightharpoonup> psuReading) \<Rightarrow> nat \<times> (string \<rightharpoonup> psuReading)" where
  "psuLoop [] psuCount readings = (psuCount, readings)"
| "psuLoop (psu # rest) psuCount readings =
     (if psu_Name psu = '''' then psuLoop rest psuCount readings
      else
        let psuCount1 = psuCount + 1;
            health = (if Health (psu_Status psu) \<noteq> ''''
                      then (if Health (psu_Status psu) = ''OK'' then 1 else 0)
                      else 2)
        in psuLoop rest psuCount1
             (readings(psu_Name psu \<mapsto>
                \<lparr>rd_health = health, rd_acPower = PowerInputWatts psu,
                 rd_dcPower = PowerOutputWatts psu,
                 rd_name = ''PSU '' @ Sprintf_d (int psuCount1)\<rparr>)))"

text \<open>
  The loop of \<open>tryAlternativeChassis\<close> over the chassis (lines 119-168) and what follows
  it. Each pass that reads power data takes the mutex and defers its release to the
  return of the function, so the mutex stays held from one pass to the next.
\<close>

fun scanChassis :: "Chassis option list \<Rightarrow> PowerCollector \<Rightarrow> (string option, PowerCollector) outcome" where
  "scanChassis [] c =
     (if psu_readings c = Map.empty
      then Returns (Some ''could not find any chassis with power supply information'') c
      else Returns None c)"
| "scanChassis (None # rest) c = Panics c"
| "scanChassis (Some chassis # rest) c =
     (if ID chassis = ''NVMeSSD.0.Group.0.StorageBackplane'' then scanChassis rest c
      else
        case Power_reply chassis of
          Inl err \<Rightarrow> scanChassis rest (c\<lparr>queried := queried c @ [ID chassis]\<rparr>)
        | Inr powerData \<Rightarrow>
            Lock (c\<lparr>queried := queried c @ [ID chassis]\<rparr>) (\<lambda>c1.
              let (psuCount, readings) = psuLoop (PowerSupplies powerData) 0 (psu_readings c1);
                  c2 = c1\<lparr>psu_readings := readings\<rparr>
              in if psuCount > 0 then Returns None c2 else scanChassis rest c2))"

definition tryAlternativeChassis :: "Backend \<Rightarrow> Client \<Rightarrow> PowerCollector \<Rightarrow>
    (string option, PowerCollector) outcome" where
  "tryAlternativeChassis b client c =
     (case GetChassis b client of
        Blocks cl \<Rightarrow> Blocks c
      | Panics cl \<Rightarrow> Panics c
      | Returns (allChassis, Some err) cl \<Rightarrow>
          Returns (Some (''failed to get any chassis: '' @ err)) c
      | Returns (allChassis, None) cl \<Rightarrow> deferUnlock (scanChassis allChassis c))"

definition PowerCollector_Update :: "Backend \<Rightarrow> Client \<Rightarrow> PowerCollector \<Rightarrow>
    (string option, PowerCollector) outcome" where
  "PowerCollector_Update b client c0 = RecordScrapeTime b ''power''
     (Lock c0 (\<lambda>c1.
        let c2 = Unlock (c1\<lparr>psu_readings := Map.empty\<rparr>)
        in case GetChassisWithID b ''1'' client of
             Blocks cl \<Rightarrow> Blocks c2
           | Panics cl \<Rightarrow> Panics c2
           | Returns (Inl err) cl \<Rightarrow> tryAlternativeChassis b cl c2
           | Returns (Inr chassis) cl \<Rightarrow>
              (case Power_reply chassis of
                 Inl err \<Rightarrow> tryAlternativeChassis b cl c2
               | Inr powerData \<Rightarrow>
                   deferUnlock (Lock c2 (\<lambda>c3.
                     Returns None
                       (c3\<lparr>psu_readings := snd (psuLoop (PowerSupplies powerData) 0 (psu_readings c3))\<rparr>))))))"

definition psuSamples :: "psuReading \<Rightarrow> Sample set" where
  "psuSamples reading =
     {Sample ''ipmi_psu_health'' [rd_name reading] (rd_health reading),
      Sample ''ipmi_psu_ac_input_power_watts'' [rd_name reading] (rd_acPower reading),
      Sample ''ipmi_psu_dc_output_power_watts'' [rd_name reading] (rd_dcPower reading)}"

definition PowerCollector_Collect :: "PowerCollector \<Rightarrow> (Sample set, PowerCollector) outcome" where
  "PowerCollector_Collect c = deferUnlock (Lock c (\<lambda>c1.
     Returns ((\<Union>reading \<in> ran (psu_readings c1). psuSamples reading)
              \<union> {Sample ''ipmi_power_scrape_duration_seconds'' [] (scrapeTime c1)}) c1))"

subsection \<open>The fans collector\<close>

record fanMetric =
  fm_health :: real
  fm_state :: real
  fm_speed :: real
  fm_name :: string

record FansCollector = BaseCollector +
  fans :: "string \<rightharpoonup> fanMetric"

definition NewFansCollector :: FansCollector where
  "NewFansCollector = \<lparr>col_mutex = False, scrapeTime = 0, target = '''', fans = Map.empty\<rparr>"

fun fanLoop :: "Fan list \<Rightarrow> (string \<rightharpoonup> fanMetric) \<Rightarrow> (string \<rightharpoonup> fanMetric)" where
  "fanLoop [] readings = readings"
| "fanLoop (fan # rest) readings =
     (if fan_Name fan = '''' then fanLoop rest readings
      else
        let health = (if Health (fan_Status fan) \<noteq> ''''
                      then (if Health (fan_Status fan) = ''OK'' then 1 else 0)
                      else 2);
            state = (if State (fan_Status fan) = ''Enabled'' then 1 else 0)
        in fanLoop rest
             (readings(fan_Name fan \<mapsto>
                \<lparr>fm_health = health, fm_state = state, fm_speed = Reading fan,
                 fm_name = fan_Name fan\<rparr>)))"

definition FansCollector_Update :: "Backend \<Rightarrow> Client \<Rightarrow> FansCollector \<Rightarrow>
    (string option, FansCollector) outcome" where
  "FansCollector_Update b client c0 = RecordScrapeTime b ''fan''
     (Lock c0 (\<lambda>c1.
        let c2 = Unlock (c1\<lparr>fans := Map.empty\<rparr>)
        in case GetMainChassis b client of
             Blocks cl \<Rightarrow> Blocks c2
           | Panics cl \<Rightarrow> Panics c2
           | Returns (Inl err) cl \<Rightarrow> Returns None c2
           | Returns (Inr chassis) cl \<Rightarrow>
              (case Thermal_reply chassis of
                 Inl err \<Rightarrow> Returns None c2
               | Inr thermal \<Rightarrow>
                   deferUnlock (Lock c2 (\<lambda>c3.
                     Returns None (c3\<lparr>fans := fanLoop (Fans thermal) (fans c3)\<rparr>))))))"

definition fanSamples :: "fanMetric \<Rightarrow> Sample set" where
  "fanSamples reading =
     {Sample ''ipmi_fan_health'' [fm_name reading] (fm_health reading),
      Sample ''ipmi_fan_state'' [fm_name reading] (fm_state reading),
      Sample ''ipmi_fan_speed_rpm'' [fm_name reading] (fm_speed reading)}"

definition FansCollector_Collect :: "FansCollector \<Rightarrow> (Sample set, FansCollector) outcome" where
  "FansCollector_Collect c = deferUnlock (Lock c (\<lambda>c1.
     Returns ((\<Union>reading \<in> ran (fans c1). fanSamples reading)
              \<union> {Sample ''ipmi_fan_scrape_duration_seconds'' [] (scrapeTime c1)}) c1))"

subsection \<open>telemetry.go\<close>

record TelemetryCollector = BaseCollector +
  reading :: real

definition NewTelemetryCollector :: TelemetryCollector where
  "NewTelemetryCollector = \<lparr>col_mutex = False, scrapeTime = 0, target = '''', reading = 0\<rparr>"

text \<open>The loop over the power-control entries: the first positive reading is taken.\<close>

fun pcLoop :: "PowerControl list \<Rightarrow> real \<Rightarrow> real" where
  "pcLoop [] r = r"
| "pcLoop (pc # rest) r =
     (if PowerConsumedWatts pc > 0 then PowerConsumedWatts pc else pcLoop rest r)"

definition TelemetryCollector_Update :: "Backend \<Rightarrow> Client \<Rightarrow> TelemetryCollector \<Rightarrow>
    (string option, TelemetryCollector) outcome" where
  "TelemetryCollector_Update b client c0 = RecordScrapeTime b ''telemetry''
     (Lock c0 (\<lambda>c1.
        let c2 = Unlock (c1\<lparr>reading := 0\<rparr>)
        in case GetMainChassis b client of
             Blocks cl \<Rightarrow> Blocks c2
           | Panics cl \<Rightarrow> Panics c2
           | Returns (Inl err) cl \<Rightarrow> Returns None c2
           | Returns (Inr chassis) cl \<Rightarrow>
              (case Power_reply chassis of
                 Inl err \<Rightarrow> Returns None c2
               | Inr powerData \<Rightarrow>
                   deferUnlock (Lock c2 (\<lambda>c3.
                     Returns None (c3\<lparr>reading := pcLoop (PowerControls powerData) (reading c3)\<rparr>))))))"

definition TelemetryCollector_Collect :: "TelemetryCollector \<Rightarrow> (Sample set, TelemetryCollector) outcome" where
  "TelemetryCollector_Collect c = deferUnlock (Lock c (\<lambda>c1.
     Returns ((if reading c1 > 0
               then {Sample ''ipmi_telemetry_power_consumption_watts'' [] (reading c1)}
               else {})
              \<union> {Sample ''ipmi_telemetry_scrape_duration_seconds'' [] (scrapeTime c1)}) c1))"

subsection \<open>The \<open>Collector\<close> interface and its five implementations\<close>

datatype Collector =
  SystemC SystemCollector
| SensorC SensorCollector
| PowerC PowerCollector
| FansC FansCollector
| TelemetryC TelemetryCollector

fun Update :: "Backend \<Rightarrow> Client \<Rightarrow> Collector \<Rightarrow> (string option, Collector) outcome" where
  "Update b client (SystemC c) = map_outcome id SystemC (SystemCollector_Update b client c)"
| "Update b client (SensorC c) = map_outcome id SensorC (SensorCollector_Update b client c)"
| "Update b client (PowerC c) = map_outcome id PowerC (PowerCollector_Update b client c)"
| "Update b client (FansC c) = map_outcome id FansC (FansCollector_Update b client c)"
| "Update b client (TelemetryC c) = map_outcome id TelemetryC (TelemetryCollector_Update b client c)"

fun Collect :: "Collector \<Rightarrow> (Sample set, Collector) outcome" where
  "Collect (SystemC c) = map_outcome id SystemC (SystemCollector_Collect c)"
| "Collect (SensorC c) = map_outcome id SensorC (SensorCollector_Collect c)"
| "Collect (PowerC c) = map_outcome id PowerC (PowerCollector_Collect c)"
| "Collect (FansC c) = map_outcome id FansC (FansCollector_Collect c)"
| "Collect (TelemetryC c) = map_outcome id TelemetryC (TelemetryCollector_Collect c)"

fun SetTarget :: "string \<Rightarrow> Collector \<Rightarrow> (unit, Collector) outcome" where
  "SetTarget t (SystemC c) = map_outcome id SystemC (setTarget t c)"
| "SetTarget t (SensorC c) = map_outcome id SensorC (setTarget t c)"
| "SetTarget t (PowerC c) = map_outcome id PowerC (setTarget t c)"
| "SetTarget t (FansC c) = map_outcome id FansC (setTarget t c)"
| "SetTarget t (TelemetryC c) = map_outcome id TelemetryC (setTarget t c)"

text \<open>What \<open>%T\<close> prints for a collector.\<close>

fun typeName :: "Collector \<Rightarrow> string" where
  "typeName (SystemC c) = ''*collector.SystemCollector''"
| "typeName (SensorC c) = ''*collector.SensorCollector''"
| "typeName (PowerC c) = ''*collector.PowerCollector''"
| "typeName (FansC c) = ''*collector.FansCollector''"
| "typeName (TelemetryC c) = ''*collector.TelemetryCollector''"

section \<open>The main collector and the metrics handler\<close>

text \<open>
  The fields of the application configuration that the collection path reads.
  \<open>dialled\<close> is a ghost field of the main collector: the hosts a connection was
  attempted to, in order.
\<close>

record AppConfig =
  RedfishUsername :: string
  RedfishPassword :: string
  RedfishInsecure :: bool

record SherlockCollector =
  app_config :: AppConfig
  clients :: "string \<rightharpoonup> Client"
  sc_mutex :: bool
  dialled :: "string list"

definition NewSherlockCollector :: "AppConfig \<Rightarrow> SherlockCollector" where
  "NewSherlockCollector cfg =
     \<lparr>app_config = cfg, clients = Map.empty, sc_mutex = False, dialled = []\<rparr>"

definition getClient :: "Backend \<Rightarrow> string \<Rightarrow> SherlockCollector \<Rightarrow>
    (string + Client, SherlockCollector) outcome" where
  "getClient b hostname s =
     (if sc_mutex s then Blocks s
      else case clients s hostname of
             Some client \<Rightarrow> Returns (Inr client) s
           | None \<Rightarrow>
              (let targetURL = ''https://'' @ hostname;
                   redfishConfig = \<lparr>Host = targetURL,
                                    Username = RedfishUsername (app_config s),
                                    Password = RedfishPassword (app_config s),
                                    Insecure = RedfishInsecure (app_config s)\<rparr>;
                   s1 = s\<lparr>dialled := dialled s @ [targetURL]\<rparr>
               in case NewClient b redfishConfig of
                    Inl err \<Rightarrow> Returns (Inl err) s1
                  | Inr client \<Rightarrow> Returns (Inr client) (s1\<lparr>clients := (clients s1)(hostname \<mapsto> client)\<rparr>)))"

text \<open>The loop \<open>for _, col := range collectors { col.SetTarget(target) }\<close>.\<close>

fun setTargets :: "string \<Rightarrow> Collector list \<Rightarrow> (unit, Collector list) outcome" where
  "setTargets t [] = Returns () []"
| "setTargets t (col # cols) =
     (case SetTarget t col of
        Blocks col1 \<Rightarrow> Blocks (col1 # cols)
      | Panics col1 \<Rightarrow> Panics (col1 # cols)
      | Returns u col1 \<Rightarrow>
         (case setTargets t cols of
            Blocks cols1 \<Rightarrow> Blocks (col1 # cols1)
          | Panics cols1 \<Rightarrow> Panics (col1 # cols1)
          | Returns v cols1 \<Rightarrow> Returns () (col1 # cols1)))"

text \<open>
  The wait group. Each task runs \<open>Update\<close> on its own collector in its own goroutine;
  \<open>wg.Wait()\<close> returns once every task has returned. A panic in a task's goroutine ends
  the process; a task that never returns keeps the join waiting forever.
\<close>

fun join :: "('r, 'c) outcome list \<Rightarrow> (('r \<times> 'c) list, unit) outcome" where
  "join [] = Returns [] ()"
| "join (Returns r c # outs) =
     (case join outs of
        Returns done u \<Rightarrow> Returns ((r, c) # done) ()
      | Blocks u \<Rightarrow> Blocks ()
      | Panics u \<Rightarrow> Panics ())"
| "join (Panics c # outs) = Panics ()"
| "join (Blocks c # outs) =
     (case join outs of
        Returns done u \<Rightarrow> Blocks ()
      | Blocks u \<Rightarrow> Blocks ()
      | Panics u \<Rightarrow> Panics ())"

text \<open>
  The errors sent to \<open>errChan\<close>, as they are logged. (The channel delivers them in the
  order the tasks finished; the model lists them in the order of the collectors.)
\<close>

fun updateErrors :: "string \<Rightarrow> (string option \<times> Collector) list \<Rightarrow> string list" where
  "updateErrors t [] = []"
| "updateErrors t ((None, col) # rest) = updateErrors t rest"
| "updateErrors t ((Some err, col) # rest) =
     (''error updating collector '' @ typeName col @ '' for target '' @ t @ '': '' @ err)
     # updateErrors t rest"

text \<open>The loop \<open>for _, collector := range collectors { collector.Collect(ch) }\<close>.\<close>

fun collectAll :: "Collector list \<Rightarrow> (Sample set, unit) outcome" where
  "collectAll [] = Returns {} ()"
| "collectAll (col # cols) =
     (case Collect col of
        Blocks col1 \<Rightarrow> Blocks ()
      | Panics col1 \<Rightarrow> Panics ()
      | Returns samples col1 \<Rightarrow>
         (case collectAll cols of
            Blocks u \<Rightarrow> Blocks ()
          | Panics u \<Rightarrow> Panics ()
          | Returns others u \<Rightarrow> Returns (samples \<union> others) ()))"

text \<open>
  What one call of \<open>collectTarget\<close> gives: the lines it logs at error level and the
  samples it sends to the channel. The function has no result, so nothing else reaches
  its caller.
\<close>

record Scrape =
  logged :: "string list"
  emitted :: "Sample set"

definition newCollectors :: "Collector list" where
  "newCollectors =
     [SystemC NewSystemCollector, SensorC NewSensorCollector, PowerC NewPowerCollector,
      FansC NewFansCollector, TelemetryC NewTelemetryCollector]"

definition collectTarget :: "Backend \<Rightarrow> string \<Rightarrow> SherlockCollector \<Rightarrow>
    (Scrape, SherlockCollector) outcome" where
  "collectTarget b t s =
     (case getClient b t s of
        Blocks s1 \<Rightarrow> Blocks s1
      | Panics s1 \<Rightarrow> Panics s1
      | Returns (Inl err) s1 \<Rightarrow>
          Returns \<lparr>logged = [''failed to connect to redfish api: '' @ err], emitted = {}\<rparr> s1
      | Returns (Inr client) s1 \<Rightarrow>
         (case setTargets t newCollectors of
            Blocks cols \<Rightarrow> Blocks s1
          | Panics cols \<Rightarrow> Panics s1
          | Returns u collectors \<Rightarrow>
             (case join (map (Update b client) collectors) of
                Blocks u \<Rightarrow> Blocks s1
              | Panics u \<Rightarrow> Panics s1
              | Returns done u \<Rightarrow>
                 (case collectAll (map snd done) of
                    Blocks u \<Rightarrow> Blocks s1
                  | Panics u \<Rightarrow> Panics s1
                  | Returns samples u \<Rightarrow>
                      Returns \<lparr>logged = updateErrors t done, emitted = samples\<rparr> s1))))"

text \<open>
  The handler of the metrics path. A request is its query parameters, in order;
  \<open>Get\<close> is \<open>url.Values.Get\<close>. A response is a status code, a plain-text body and the
  samples the exposition handler serialises.
\<close>

record Request =
  query :: "(string \<times> string) list"

fun Get :: "string \<Rightarrow> (string \<times> string) list \<Rightarrow> string" where
  "Get k [] = ''''"
| "Get k ((k1, v) # rest) = (if k1 = k then v else Get k rest)"

record Response =
  status :: nat
  body :: string
  samples :: "Sample set"

definition normalizeTarget :: "string \<Rightarrow> string" where
  "normalizeTarget t = TrimPrefix (TrimPrefix t ''http://'') ''https://''"

definition metricsHandler :: "Backend \<Rightarrow> Request \<Rightarrow> SherlockCollector \<Rightarrow>
    (Response, SherlockCollector) outcome" where
  "metricsHandler b r s =
     (let t = Get ''target'' (query r)
      in if t = ''''
         then Returns \<lparr>status = 400,
                       body = ''Error: 'target' parameter is required (e.g. ?target=bmc.example.com)'' @ [CHR 0x0A],
                       samples = {}\<rparr> s
         else case collectTarget b (normalizeTarget t) s of
                Blocks s1 \<Rightarrow> Blocks s1
              | Panics s1 \<Rightarrow> Panics s1
              | Returns scrape s1 \<Rightarrow>
                  Returns \<lparr>status = 200, body = '''', samples = emitted scrape\<rparr> s1)"

section \<open>The rules of the specification\<close>

text \<open>
  The health rule in the specification's words: "OK" gives 1, any other non-empty
  status text gives 0, an empty or absent status gives 2.
\<close>

definition healthRule :: "string \<Rightarrow> real" where
  "healthRule s = (if s = ''OK'' then 1 else if s = '''' then 2 else 0)"

text \<open>The errors by which the client says that the chassis asked for is not there.\<close>

definition notFoundError :: "string \<Rightarrow> string \<Rightarrow> bool" where
  "notFoundError i err =
     (err = ''no chassis found'' \<or> err = ''main chassis (ID 1) not found'' \<or>
      err = ''chassis with ID '' @ i @ '' not found'')"

section \<open>Scenarios\<close>

definition cfg0 :: Config where
  "cfg0 = \<lparr>Host = ''https://bmc1'', Username = ''admin'', Password = ''password'',
            Insecure = True\<rparr>"

text \<open>The client that \<open>NewClient\<close> gives for \<open>cfg0\<close> when the remote hands out handle 0.\<close>

definition session0 :: Client where
  "session0 = \<lparr>APIClient = Some 0, Service = Some 0, config = cfg0, mutex = False,
                logouts = [], dials = 1\<rparr>"

definition okStatus :: Status where
  "okStatus = \<lparr>Health = ''OK'', State = ''Enabled''\<rparr>"

definition criticalStatus :: Status where
  "criticalStatus = \<lparr>Health = ''Critical'', State = ''Enabled''\<rparr>"

definition noPower :: Power where
  "noPower = \<lparr>PowerSupplies = [], Voltages = [], PowerControls = []\<rparr>"

definition mainChassis :: Chassis where
  "mainChassis = \<lparr>ID = ''1'', Power_reply = Inr noPower, Thermal_reply = Inl ''no thermal data''\<rparr>"

text \<open>
  The session on handle 0 has expired: the chassis list fails there with a 401. A new
  connection gets handle \<open>n\<close> at the \<open>n\<close>-th attempt, and the list succeeds on it.
\<close>

definition expiredBackend :: Backend where
  "expiredBackend =
     \<lparr>Dial = (\<lambda>cfg n. Inr n),
      ChassisList = (\<lambda>h. if h = 0 then ([], Some ''401 Unauthorized'')
                          else ([Some mainChassis], None)),
      SystemsList = (\<lambda>h. Inl ''unreachable''),
      Elapsed = (\<lambda>name. 0)\<rparr>"

text \<open>The same, but no new connection can be made after the first.\<close>

definition lockedOutBackend :: Backend where
  "lockedOutBackend =
     \<lparr>Dial = (\<lambda>cfg n. if n = 0 then Inr 0 else Inl ''connection refused''),
      ChassisList = (\<lambda>h. ([], Some ''401 Unauthorized'')),
      SystemsList = (\<lambda>h. Inl ''unreachable''),
      Elapsed = (\<lambda>name. 0)\<rparr>"

text \<open>The remote cannot be reached: every list fails.\<close>

definition downBackend :: Backend where
  "downBackend =
     \<lparr>Dial = (\<lambda>cfg n. Inr n),
      ChassisList = (\<lambda>h. ([], Some ''connection refused'')),
      SystemsList = (\<lambda>h. Inl ''connection refused''),
      Elapsed = (\<lambda>name. 0)\<rparr>"

text \<open>
  Three chassis and none with ID 1: A is the storage backplane of the denylist, B has
  power data without power supplies, C has two power supplies.
\<close>

definition psu1 :: PowerSupply where
  "psu1 = \<lparr>psu_Name = ''PSU1'', psu_Status = okStatus, PowerInputWatts = 220,
            PowerOutputWatts = 200\<rparr>"

definition psu2 :: PowerSupply where
  "psu2 = \<lparr>psu_Name = ''PSU2'', psu_Status = okStatus, PowerInputWatts = 230,
            PowerOutputWatts = 210\<rparr>"

definition entryA :: Chassis where
  "entryA = \<lparr>ID = ''NVMeSSD.0.Group.0.StorageBackplane'', Power_reply = Inr noPower,
              Thermal_reply = Inl ''no thermal data''\<rparr>"

definition entryB :: Chassis where
  "entryB = \<lparr>ID = ''2'', Power_reply = Inr noPower, Thermal_reply = Inl ''no thermal data''\<rparr>"

definition entryC :: Chassis where
  "entryC = \<lparr>ID = ''3'',
              Power_reply = Inr \<lparr>PowerSupplies = [psu1, psu2], Voltages = [], PowerControls = []\<rparr>,
              Thermal_reply = Inl ''no thermal data''\<rparr>"

definition fallbackBackend :: Backend where
  "fallbackBackend =
     \<lparr>Dial = (\<lambda>cfg n. Inr n),
      ChassisList = (\<lambda>h. ([Some entryA, Some entryB, Some entryC], None)),
      SystemsList = (\<lambda>h. Inl ''unreachable''),
      Elapsed = (\<lambda>name. 0)\<rparr>"

text \<open>The systems list is fetched without error and is empty.\<close>

definition noSystemsBackend :: Backend where
  "noSystemsBackend =
     \<lparr>Dial = (\<lambda>cfg n. Inr n),
      ChassisList = (\<lambda>h. ([Some mainChassis], None)),
      SystemsList = (\<lambda>h. Inr []),
      Elapsed = (\<lambda>name. 0)\<rparr>"

text \<open>One system with two processors: the first is critical, the memory is healthy.\<close>

definition cpuA :: Processor where
  "cpuA = \<lparr>cpu_ID = ''CPU1'', cpu_Status = criticalStatus, TotalCores = 8, Model = ''Xeon''\<rparr>"

definition cpuB :: Processor where
  "cpuB = \<lparr>cpu_ID = ''CPU2'', cpu_Status = okStatus, TotalCores = 8, Model = ''Xeon''\<rparr>"

definition system0 :: ComputerSystem where
  "system0 = \<lparr>PowerState = ''On'',
               Memory = \<lparr>TotalSystemMemoryGiB = 64, mem_Status = okStatus\<rparr>,
               Processors_reply = Inr [cpuA, cpuB]\<rparr>"

definition systemBackend :: Backend where
  "systemBackend =
     \<lparr>Dial = (\<lambda>cfg n. Inr n),
      ChassisList = (\<lambda>h. ([Some mainChassis], None)),
      SystemsList = (\<lambda>h. Inr [system0]),
      Elapsed = (\<lambda>name. 0)\<rparr>"

text \<open>What the system collector holds after an update against \<open>systemBackend\<close>.\<close>

definition scrapedSystem :: SystemCollector where
  "scrapedSystem =
     \<lparr>col_mutex = False, scrapeTime = 0, target = '''',
      sys_readings =
        [''CPU1'' \<mapsto> \<lparr>sys_powerState = 1, sys_health = 1, sys_cores = 8, sys_name = ''CPU1'',
                        sys_model = ''Xeon'', sys_totalMemoryGiB = ''64''\<rparr>,
         ''CPU2'' \<mapsto> \<lparr>sys_powerState = 1, sys_health = 1, sys_cores = 8, sys_name = ''CPU2'',
                        sys_model = ''Xeon'', sys_totalMemoryGiB = ''''\<rparr>],
      firstCPUID = ''CPU1''\<rparr>"

text \<open>
  The list fails in part: the error says so, and the primary chassis is among the items
  that were retrieved.
\<close>

definition partialBackend :: Backend where
  "partialBackend =
     \<lparr>Dial = (\<lambda>cfg n. Inr n),
      ChassisList = (\<lambda>h. ([Some mainChassis, None], Some ''failed to retrieve some items: [2]'')),
      SystemsList = (\<lambda>h. Inl ''unreachable''),
      Elapsed = (\<lambda>name. 0)\<rparr>"

text \<open>
  The primary chassis reports three power supplies: two share the name "PSU", and the
  one between them has no name.
\<close>

definition twinA :: PowerSupply where
  "twinA = \<lparr>psu_Name = ''PSU'', psu_Status = okStatus, PowerInputWatts = 220,
             PowerOutputWatts = 200\<rparr>"

definition nameless :: PowerSupply where
  "nameless = \<lparr>psu_Name = '''', psu_Status = okStatus, PowerInputWatts = 0,
                PowerOutputWatts = 0\<rparr>"

definition twinB :: PowerSupply where
  "twinB = \<lparr>psu_Name = ''PSU'', psu_Status = criticalStatus, PowerInputWatts = 230,
             PowerOutputWatts = 210\<rparr>"

definition twinPower :: Power where
  "twinPower = \<lparr>PowerSupplies = [twinA, nameless, twinB], Voltages = [], PowerControls = []\<rparr>"

definition twinChassis :: Chassis where
  "twinChassis = \<lparr>ID = ''1'', Power_reply = Inr twinPower, Thermal_reply = Inl ''no thermal data''\<rparr>"

definition twinBackend :: Backend where
  "twinBackend =
     \<lparr>Dial = (\<lambda>cfg n. Inr n),
      ChassisList = (\<lambda>h. ([Some twinChassis], None)),
      SystemsList = (\<lambda>h. Inl ''unreachable''),
      Elapsed = (\<lambda>name. 0)\<rparr>"

text \<open>
  The primary chassis reports one power-control entry, in critical state, that consumes
  120 watts; it also has a temperature sensor, a voltage sensor and a fan.
\<close>

definition meter :: PowerControl where
  "meter = \<lparr>pc_Status = criticalStatus, PowerConsumedWatts = 120\<rparr>"

definition inlet :: Temperature where
  "inlet = \<lparr>temp_Name = ''Inlet'', temp_Status = okStatus, ReadingCelsius = 21\<rparr>"

definition rail :: Voltage where
  "rail = \<lparr>volt_Name = ''12V'', volt_Status = \<lparr>Health = '''', State = ''Enabled''\<rparr>,
            ReadingVolts = 12\<rparr>"

definition fan1 :: Fan where
  "fan1 = \<lparr>fan_Name = ''Fan1'', fan_Status = \<lparr>Health = ''Warning'', State = ''Enabled''\<rparr>,
            Reading = 4200\<rparr>"

definition meteredChassis :: Chassis where
  "meteredChassis =
     \<lparr>ID = ''1'',
      Power_reply = Inr \<lparr>PowerSupplies = [psu1], Voltages = [rail], PowerControls = [meter]\<rparr>,
      Thermal_reply = Inr \<lparr>Temperatures = [inlet], Fans = [fan1]\<rparr>\<rparr>"

definition meteredBackend :: Backend where
  "meteredBackend =
     \<lparr>Dial = (\<lambda>cfg n. Inr n),
      ChassisList = (\<lambda>h. ([Some meteredChassis], None)),
      SystemsList = (\<lambda>h. Inr [system0]),
      Elapsed = (\<lambda>name. 1 / 4)\<rparr>"

text \<open>The main collector at start-up, and three requests.\<close>

definition sherlock0 :: SherlockCollector where
  "sherlock0 = NewSherlockCollector
     \<lparr>RedfishUsername = ''admin'', RedfishPassword = ''password'', RedfishInsecure = True\<rparr>"

definition noTarget :: Request where
  "noTarget = \<lparr>query = [(''module'', ''default'')]\<rparr>"

definition emptyTarget :: Request where
  "emptyTarget = \<lparr>query = [(''target'', '''')]\<rparr>"

definition withScheme :: Request where
  "withScheme = \<lparr>query = [(''target'', ''https://bmc1'')]\<rparr>"

section \<open>Notions used in the statements\<close>

text \<open>The power supplies that have a name, in order.\<close>

definition named :: "PowerSupply list \<Rightarrow> PowerSupply list" where
  "named psus = filter (\<lambda>p. psu_Name p \<noteq> '''') psus"

text \<open>The five new collectors once the loop over \<open>SetTarget\<close> has bound them to a target.\<close>

definition bound :: "string \<Rightarrow> Collector list" where
  "bound t =
     [SystemC (NewSystemCollector\<lparr>target := t\<rparr>), SensorC (NewSensorCollector\<lparr>target := t\<rparr>),
      PowerC (NewPowerCollector\<lparr>target := t\<rparr>), FansC (NewFansCollector\<lparr>target := t\<rparr>),
      TelemetryC (NewTelemetryCollector\<lparr>target := t\<rparr>)]"

text \<open>A collector whose mutex is free.\<close>

fun idle :: "Collector \<Rightarrow> bool" where
  "idle (SystemC c) = (\<not> col_mutex c)"
| "idle (SensorC c) = (\<not> col_mutex c)"
| "idle (PowerC c) = (\<not> col_mutex c)"
| "idle (FansC c) = (\<not> col_mutex c)"
| "idle (TelemetryC c) = (\<not> col_mutex c)"

section \<open>The client under an authentication error\<close>

text \<open>
  \<open>reconnect\<close> takes the mutex of the client, and so does \<open>Close\<close>, which it calls;
  \<open>GetMainChassis\<close> and \<open>GetChassisWithID\<close> call \<open>reconnect\<close> while they hold that
  mutex. Whoever calls \<open>reconnect\<close> with the mutex held waits forever, and nothing has
  been logged out by then.
\<close>

lemma reconnect_held: "mutex c \<Longrightarrow> reconnect b c = Blocks c"
  by (simp add: reconnect_def locked_def)

lemma GetMainChassis_auth_blocks:
  assumes "\<not> mutex c" and "Service c = Some h" and "ChassisList b h = (chs, Some e)"
    and "isAuthError (Some e)"
    and "\<not> (Contains e ''failed to retrieve some items'' \<and> length chs > 0)"
  shows "GetMainChassis b c = Blocks (c\<lparr>mutex := True\<rparr>)"
  using assms by (simp add: GetMainChassis_def locked_def reconnect_held)

text \<open>
  C1. A session whose chassis list fails with a 401 on the handle it holds, where a new
  connection would be granted and the list would succeed on it: \<open>GetMainChassis\<close> does
  not return the primary chassis, it never returns, and \<open>Logout\<close> has been called on no
  handle. Where no new connection can be made, it never returns either, so no wrapped
  error is reported.
\<close>

theorem GetMainChassis_expired_session_blocks:
  "NewClient expiredBackend cfg0 = Inr session0 \<and>
   ChassisList expiredBackend 0 = ([], Some ''401 Unauthorized'') \<and>
   isAuthError (Some ''401 Unauthorized'') \<and>
   Dial expiredBackend cfg0 1 = Inr 1 \<and>
   ChassisList expiredBackend 1 = ([Some mainChassis], None) \<and>
   GetMainChassis expiredBackend session0 = Blocks (session0\<lparr>mutex := True\<rparr>) \<and>
   logouts (session0\<lparr>mutex := True\<rparr>) = [] \<and>
   NewClient lockedOutBackend cfg0 = Inr session0 \<and>
   Dial lockedOutBackend cfg0 1 = Inl ''connection refused'' \<and>
   GetMainChassis lockedOutBackend session0 = Blocks (session0\<lparr>mutex := True\<rparr>)"
  by (simp add: NewClient_def connect_def expiredBackend_def lockedOutBackend_def session0_def
      isAuthError_def GetMainChassis_def locked_def reconnect_def)

section \<open>The system collector\<close>

text \<open>
  C4. The systems list is fetched without error and is empty: \<open>Update\<close> reads
  \<open>systems[0]\<close> unguarded and panics; it does not return.
\<close>

theorem SystemCollector_Update_no_systems_panics:
  "SystemsList noSystemsBackend 0 = Inr [] \<and>
   SystemCollector_Update noSystemsBackend session0 NewSystemCollector
     = Panics NewSystemCollector"
  by (simp add: SystemCollector_Update_def noSystemsBackend_def session0_def
      NewSystemCollector_def RecordScrapeTime_def)

text \<open>
  C2. The system collector fetches the systems list before it clears its readings, and
  returns at once when that fetch fails. After one update against a healthy remote and
  a second against an unreachable one, the readings of the first are still there.
\<close>

theorem SystemCollector_Update_keeps_stale_readings:
  "SystemCollector_Update systemBackend session0 NewSystemCollector = Returns None scrapedSystem \<and>
   SystemsList downBackend 0 = Inl ''connection refused'' \<and>
   SystemCollector_Update downBackend session0 scrapedSystem = Returns None scrapedSystem \<and>
   dom (sys_readings scrapedSystem) = {''CPU1'', ''CPU2''}"
  by (auto simp add: SystemCollector_Update_def systemBackend_def downBackend_def session0_def
      NewSystemCollector_def scrapedSystem_def RecordScrapeTime_def Lock_def Unlock_def
      deferUnlock_def system0_def cpuA_def cpuB_def okStatus_def criticalStatus_def
      Sprintf_f0_def Sprintf_d_def Itoa.simps digit_def)

text \<open>
  C9. Two processors, the first one critical, and a healthy memory subsystem: the entry
  of the first processor carries the health of the memory (1), not that of the processor
  (0), and the CPU-health sample emitted for the first processor has the value 1.
\<close>

theorem SystemCollector_first_cpu_health_overwritten:
  "healthRule (Health (cpu_Status cpuA)) = 0 \<and>
   healthRule (Health (mem_Status (Memory system0))) = 1 \<and>
   SystemCollector_Update systemBackend session0 NewSystemCollector = Returns None scrapedSystem \<and>
   map_option sys_health (sys_readings scrapedSystem (cpu_ID cpuA)) = Some 1 \<and>
   SystemCollector_Collect scrapedSystem =
     Returns {Sample ''ipmi_system_power_state'' [] 1,
              Sample ''ipmi_memory_health'' [''64''] 1,
              Sample ''ipmi_cpu_health'' [''CPU1'', ''Xeon'', ''8''] 1,
              Sample ''ipmi_cpu_health'' [''CPU2'', ''Xeon'', ''8''] 1,
              Sample ''ipmi_system_scrape_duration_seconds'' [] 0} scrapedSystem"
  by (auto simp add: SystemCollector_Update_def SystemCollector_Collect_def systemBackend_def
      session0_def NewSystemCollector_def scrapedSystem_def RecordScrapeTime_def Lock_def
      Unlock_def deferUnlock_def system0_def cpuA_def cpuB_def okStatus_def criticalStatus_def
      Sprintf_f0_def Sprintf_d_def Itoa.simps digit_def healthRule_def systemSamples_def)

section \<open>The power collector\<close>

text \<open>
  C3. Three chassis, none with ID 1, so the update falls back to the scan. A is skipped
  and never queried. B is queried, and the mutex taken for it stays held; B has no
  power supply, so the scan goes on to C, is granted C's power data, and waits forever
  for the mutex. \<open>Update\<close> does not return, and no reading of C is stored.
\<close>

theorem PowerCollector_Update_fallback_scenario_blocks:
  "GetChassisWithID fallbackBackend ''1'' session0
     = Returns (Inl ''main chassis (ID 1) not found'') session0 \<and>
   PowerCollector_Update fallbackBackend session0 NewPowerCollector
     = Blocks (NewPowerCollector\<lparr>col_mutex := True, queried := [''2'', ''3'']\<rparr>) \<and>
   psu_readings (NewPowerCollector\<lparr>col_mutex := True, queried := [''2'', ''3'']\<rparr>) = Map.empty"
  by (simp add: PowerCollector_Update_def NewPowerCollector_def session0_def fallbackBackend_def
      GetChassisWithID_def GetMainChassis_def locked_def Lock_def Unlock_def
      RecordScrapeTime_def deferUnlock_def tryAlternativeChassis_def GetChassis_def
      entryA_def entryB_def entryC_def noPower_def)

section \<open>Resolving a chassis\<close>

lemma lookFor_None: "(lookFor i chs = None) = (\<forall>ch. Some ch \<in> set chs \<longrightarrow> ID ch \<noteq> i)"
  by (induction i chs rule: lookFor.induct) auto

text \<open>The loop returns the first entry that is not nil and has the identifier.\<close>

lemma lookFor_Some:
  "lookFor i chs = Some ch \<Longrightarrow>
     \<exists>pre post. chs = pre @ Some ch # post \<and> ID ch = i \<and>
                (\<forall>x. Some x \<in> set pre \<longrightarrow> ID x \<noteq> i)"
proof (induction i chs rule: lookFor.induct)
  case (1 i)
  then show ?case by simp
next
  case (2 i rest)
  then obtain pre post where
    "rest = pre @ Some ch # post" "ID ch = i" "\<forall>x. Some x \<in> set pre \<longrightarrow> ID x \<noteq> i"
    by auto
  then have "None # rest = (None # pre) @ Some ch # post \<and> ID ch = i \<and>
             (\<forall>x. Some x \<in> set (None # pre) \<longrightarrow> ID x \<noteq> i)"
    by simp
  then show ?case by blast
next
  case (3 i c rest)
  show ?case
  proof (cases "ID c = i")
    case True
    with 3 have "ch = c" by simp
    with True have "Some c # rest = [] @ Some ch # rest \<and> ID ch = i \<and>
                    (\<forall>x. Some x \<in> set [] \<longrightarrow> ID x \<noteq> i)"
      by simp
    then show ?thesis by blast
  next
    case False
    with 3 obtain pre post where
      "rest = pre @ Some ch # post" "ID ch = i" "\<forall>x. Some x \<in> set pre \<longrightarrow> ID x \<noteq> i"
      by auto
    with False have "Some c # rest = (Some c # pre) @ Some ch # post \<and> ID ch = i \<and>
                     (\<forall>x. Some x \<in> set (Some c # pre) \<longrightarrow> ID x \<noteq> i)"
      by simp
    then show ?thesis by blast
  qed
qed

lemma GetChassisWithID_usable:
  assumes "\<not> mutex c" and "Service c = Some h" and "ChassisList b h = (chs, err)"
    and "err = None \<or>
         (\<exists>e. err = Some e \<and> Contains e ''failed to retrieve some items'' \<and> chs \<noteq> [])"
  shows "GetChassisWithID b i c =
           (case lookFor i chs of
              Some ch \<Rightarrow> Returns (Inr ch) c
            | None \<Rightarrow> Returns (Inl (if chs = [] then ''no chassis found''
                                     else if i = ''1'' then ''main chassis (ID 1) not found''
                                     else ''chassis with ID '' @ i @ '' not found'')) c)"
  using assms
  by (auto simp add: GetChassisWithID_def GetMainChassis_def locked_def split: option.splits)

lemma GetChassisWithID_failed:
  assumes "\<not> mutex c" and "Service c = Some h" and "ChassisList b h = (chs, Some e)"
    and "\<not> (Contains e ''failed to retrieve some items'' \<and> chs \<noteq> [])"
    and "\<not> isAuthError (Some e)"
  shows "GetChassisWithID b i c = Returns (Inl e) c"
  using assms
  by (auto simp add: GetChassisWithID_def GetMainChassis_def locked_def split: option.splits)

text \<open>
  A call of the client that returns leaves the client as it found it, so the calls of
  the collectors that share a client do not depend on each other through it.
\<close>

lemma GetChassis_Returns: "GetChassis b c = Returns r c' \<Longrightarrow> c' = c"
  by (auto simp add: GetChassis_def locked_def split: if_splits option.splits)

lemma locked_Returns:
  assumes "locked f c = Returns r c'"
    and "\<And>r1 c1. f (c\<lparr>mutex := True\<rparr>) = Returns r1 c1 \<Longrightarrow> c1 = c\<lparr>mutex := True\<rparr>"
  shows "c' = c"
proof (cases "mutex c")
  case True
  with assms(1) show ?thesis by (simp add: locked_def)
next
  case False
  with assms(1) obtain c1 where b: "f (c\<lparr>mutex := True\<rparr>) = Returns r c1" and e: "c' = c1\<lparr>mutex := False\<rparr>"
    by (cases "f (c\<lparr>mutex := True\<rparr>)") (auto simp add: locked_def)
  from assms(2) [OF b] e False show ?thesis by simp
qed


lemma GetMainChassis_Returns: "GetMainChassis b c = Returns r c' \<Longrightarrow> c' = c"
  unfolding GetMainChassis_def
  by (erule locked_Returns)
     (auto simp add: reconnect_held split: if_splits option.splits prod.splits)

lemma GetChassisWithID_Returns: "GetChassisWithID b i c = Returns r c' \<Longrightarrow> c' = c"
proof (cases "i = ''1''")
  case True
  assume "GetChassisWithID b i c = Returns r c'"
  with True show ?thesis by (simp add: GetChassisWithID_def GetMainChassis_Returns)
next
  case False
  assume "GetChassisWithID b i c = Returns r c'"
  with False have "locked (\<lambda>c.
        case Service c of
          None \<Rightarrow> Panics c
        | Some h \<Rightarrow>
           (let (chassis, err) = ChassisList b h;
                pick = (\<lambda>chassis c'.
                  if length chassis = 0 then Returns (Inl ''no chassis found'') c'
                  else case lookFor i chassis of
                         Some ch \<Rightarrow> Returns (Inr ch) c'
                       | None \<Rightarrow> Returns (Inl (''chassis with ID '' @ i @ '' not found'')) c')
            in case err of
                 None \<Rightarrow> pick chassis c
               | Some e \<Rightarrow>
                   if Contains e ''failed to retrieve some items'' \<and> length chassis > 0
                   then pick chassis c
                   else if isAuthError err then
                     (case reconnect b c of
                        Blocks c1 \<Rightarrow> Blocks c1
                      | Panics c1 \<Rightarrow> Panics c1
                      | Returns (Some reconnectErr) c1 \<Rightarrow>
                          Returns (Inl (''failed to reconnect: '' @ reconnectErr @
                                        '' (original error: '' @ e @ '')'')) c1
                      | Returns None c1 \<Rightarrow>
                          (case Service c1 of
                             None \<Rightarrow> Panics c1
                           | Some h1 \<Rightarrow>
                              (let (chassis1, err1) = ChassisList b h1
                               in case err1 of
                                    Some e1 \<Rightarrow> Returns (Inl e1) c1
                                  | None \<Rightarrow> pick chassis1 c1)))
                   else Returns (Inl e) c)) c = Returns r c'"
    by (simp add: GetChassisWithID_def)
  then show ?thesis
    by (rule locked_Returns)
       (auto simp add: reconnect_held split: if_splits option.splits prod.splits)
qed

text \<open>
  C6, as amended. For a client whose mutex is free, with the reply \<open>(chs, err)\<close> to the
  chassis list: \<open>GetChassisWithID "1"\<close> is \<open>GetMainChassis\<close>. When the list is usable (no
  error, or a partial-retrieval error with at least one item), the call returns the first
  non-nil chassis with the identifier asked for if there is one, and fails with a
  not-found error otherwise, whose text says which function was asked. When the list
  fails with an error that is neither tolerated nor an authentication error, the call
  fails with that error, unchanged.
\<close>

theorem chassis_resolution:
  assumes "\<not> mutex c" and "Service c = Some h" and "ChassisList b h = (chs, err)"
  shows "GetChassisWithID b ''1'' c = GetMainChassis b c \<and>
    ((err = None \<or>
      (\<exists>e. err = Some e \<and> Contains e ''failed to retrieve some items'' \<and> chs \<noteq> [])) \<longrightarrow>
       ((\<exists>ch. Some ch \<in> set chs \<and> ID ch = i) \<longrightarrow>
          (\<exists>pre ch post. chs = pre @ Some ch # post \<and> ID ch = i \<and>
             (\<forall>x. Some x \<in> set pre \<longrightarrow> ID x \<noteq> i) \<and>
             GetChassisWithID b i c = Returns (Inr ch) c)) \<and>
       ((\<forall>ch. Some ch \<in> set chs \<longrightarrow> ID ch \<noteq> i) \<longrightarrow>
          (\<exists>e. GetChassisWithID b i c = Returns (Inl e) c \<and> notFoundError i e \<and>
             e = (if chs = [] then ''no chassis found''
                  else if i = ''1'' then ''main chassis (ID 1) not found''
                  else ''chassis with ID '' @ i @ '' not found'')))) \<and>
    (\<forall>e. err = Some e \<and> \<not> (Contains e ''failed to retrieve some items'' \<and> chs \<noteq> []) \<and>
         \<not> isAuthError err \<longrightarrow>
         GetChassisWithID b i c = Returns (Inl e) c)"
proof (intro conjI impI allI)
  show "GetChassisWithID b ''1'' c = GetMainChassis b c"
    by (simp add: GetChassisWithID_def)
next
  assume u: "err = None \<or>
      (\<exists>e. err = Some e \<and> Contains e ''failed to retrieve some items'' \<and> chs \<noteq> [])"
    and "\<exists>ch. Some ch \<in> set chs \<and> ID ch = i"
  then have "lookFor i chs \<noteq> None" by (simp add: lookFor_None)
  then obtain ch where f: "lookFor i chs = Some ch" by auto
  then have "GetChassisWithID b i c = Returns (Inr ch) c"
    using GetChassisWithID_usable [OF assms u, of i] by simp
  with lookFor_Some [OF f]
  show "\<exists>pre ch post. chs = pre @ Some ch # post \<and> ID ch = i \<and>
           (\<forall>x. Some x \<in> set pre \<longrightarrow> ID x \<noteq> i) \<and>
           GetChassisWithID b i c = Returns (Inr ch) c"
    by blast
next
  assume u: "err = None \<or>
      (\<exists>e. err = Some e \<and> Contains e ''failed to retrieve some items'' \<and> chs \<noteq> [])"
    and "\<forall>ch. Some ch \<in> set chs \<longrightarrow> ID ch \<noteq> i"
  then have "lookFor i chs = None" by (simp add: lookFor_None)
  then show "\<exists>e. GetChassisWithID b i c = Returns (Inl e) c \<and> notFoundError i e \<and>
             e = (if chs = [] then ''no chassis found''
                  else if i = ''1'' then ''main chassis (ID 1) not found''
                  else ''chassis with ID '' @ i @ '' not found'')"
    using GetChassisWithID_usable [OF assms u, of i] by (simp add: notFoundError_def)
next
  fix e
  assume "err = Some e \<and> \<not> (Contains e ''failed to retrieve some items'' \<and> chs \<noteq> []) \<and>
         \<not> isAuthError err"
  then have "err = Some e" and "\<not> (Contains e ''failed to retrieve some items'' \<and> chs \<noteq> [])"
    and "\<not> isAuthError (Some e)"
    by auto
  with assms show "GetChassisWithID b i c = Returns (Inl e) c"
    using GetChassisWithID_failed [of c h b chs e i] by blast
qed

theorem chassis_resolution_witness:
  "(\<exists>ch. GetChassisWithID fallbackBackend ''3'' session0 = Returns (Inr ch) session0 \<and>
         ID ch = ''3'') \<and>
   GetChassisWithID fallbackBackend ''9'' session0
     = Returns (Inl ''chassis with ID 9 not found'') session0 \<and>
   GetMainChassis fallbackBackend session0
     = Returns (Inl ''main chassis (ID 1) not found'') session0 \<and>
   (\<exists>ch. GetMainChassis partialBackend session0 = Returns (Inr ch) session0 \<and> ID ch = ''1'') \<and>
   GetChassisWithID downBackend ''3'' session0 = Returns (Inl ''connection refused'') session0"
proof -
  have idle: "\<not> mutex session0" and svc: "Service session0 = Some 0"
    by (simp_all add: session0_def)
  have f: "ChassisList fallbackBackend 0 = ([Some entryA, Some entryB, Some entryC], None)"
    by (simp add: fallbackBackend_def)
  have p: "ChassisList partialBackend 0
             = ([Some mainChassis, None], Some ''failed to retrieve some items: [2]'')"
    by (simp add: partialBackend_def)
  have d: "ChassisList downBackend 0 = ([], Some ''connection refused'')"
    by (simp add: downBackend_def)
  have ids: "ID entryA = ''NVMeSSD.0.Group.0.StorageBackplane''" "ID entryB = ''2''"
    "ID entryC = ''3''" "ID mainChassis = ''1''"
    by (simp_all add: entryA_def entryB_def entryC_def mainChassis_def)
  have there: "\<exists>ch. Some ch \<in> set [Some entryA, Some entryB, Some entryC] \<and> ID ch = ''3''"
    using ids by auto
  have no9: "\<forall>ch. Some ch \<in> set [Some entryA, Some entryB, Some entryC] \<longrightarrow> ID ch \<noteq> ''9''"
    using ids by auto
  have no1: "\<forall>ch. Some ch \<in> set [Some entryA, Some entryB, Some entryC] \<longrightarrow> ID ch \<noteq> ''1''"
    using ids by auto
  have main: "\<exists>ch. Some ch \<in> set [Some mainChassis, None] \<and> ID ch = ''1''"
    using ids by auto
  have tolerated: "Contains ''failed to retrieve some items: [2]'' ''failed to retrieve some items''"
    by simp
  have refused: "\<not> isAuthError (Some ''connection refused'')"
    by (simp add: isAuthError_def)
  have w1: "\<exists>ch. GetChassisWithID fallbackBackend ''3'' session0 = Returns (Inr ch) session0 \<and>
         ID ch = ''3''"
    using chassis_resolution [OF idle svc f, of "''3''"] there by blast
  have "\<exists>e. GetChassisWithID fallbackBackend ''9'' session0 = Returns (Inl e) session0 \<and>
          e = (if [Some entryA, Some entryB, Some entryC] = [] then ''no chassis found''
               else if ''9'' = ''1'' then ''main chassis (ID 1) not found''
               else ''chassis with ID '' @ ''9'' @ '' not found'')"
    using chassis_resolution [OF idle svc f, of "''9''"] no9 by blast
  then have w2: "GetChassisWithID fallbackBackend ''9'' session0
     = Returns (Inl ''chassis with ID 9 not found'') session0"
    by simp
  have "\<exists>e. GetChassisWithID fallbackBackend ''1'' session0 = Returns (Inl e) session0 \<and>
          e = (if [Some entryA, Some entryB, Some entryC] = [] then ''no chassis found''
               else if ''1'' = ''1'' then ''main chassis (ID 1) not found''
               else ''chassis with ID '' @ ''1'' @ '' not found'')"
    using chassis_resolution [OF idle svc f, of "''1''"] no1 by blast
  moreover have "GetChassisWithID fallbackBackend ''1'' session0 = GetMainChassis fallbackBackend session0"
    using chassis_resolution [OF idle svc f, of "''1''"] by blast
  ultimately have w3: "GetMainChassis fallbackBackend session0
     = Returns (Inl ''main chassis (ID 1) not found'') session0"
    by simp
  have "\<exists>ch. GetChassisWithID partialBackend ''1'' session0 = Returns (Inr ch) session0 \<and>
         ID ch = ''1''"
    using chassis_resolution [OF idle svc p, of "''1''"] main tolerated by blast
  moreover have "GetChassisWithID partialBackend ''1'' session0 = GetMainChassis partialBackend session0"
    using chassis_resolution [OF idle svc p, of "''1''"] by blast
  ultimately have w4: "\<exists>ch. GetMainChassis partialBackend session0 = Returns (Inr ch) session0 \<and>
         ID ch = ''1''"
    by simp
  have w5: "GetChassisWithID downBackend ''3'' session0
     = Returns (Inl ''connection refused'') session0"
    using chassis_resolution [OF idle svc d, of "''3''"] refused by blast
  from w1 w2 w3 w4 w5 show ?thesis by blast
qed

text \<open>
  C6 as stated fails twice. When the remote cannot be reached, no list is obtained and
  \<open>GetMainChassis\<close> fails with the error of the list, which is not a not-found error.
  When the list fails with an authentication error, there is no retry: the call never
  returns.
\<close>

theorem chassis_resolution_counterexample:
  "GetMainChassis downBackend session0 = Returns (Inl ''connection refused'') session0 \<and>
   \<not> notFoundError ''1'' ''connection refused'' \<and>
   GetMainChassis expiredBackend session0 = Blocks (session0\<lparr>mutex := True\<rparr>)"
  by (simp add: GetMainChassis_def locked_def reconnect_def isAuthError_def downBackend_def
      expiredBackend_def session0_def notFoundError_def)

section \<open>The health rule\<close>

text \<open>
  Every reading that a loop stores under a key has the health that the rule gives for
  the status of an entry with that key.
\<close>

lemma cpuLoop_health:
  "cpuLoop ps cpus m k = Some r \<Longrightarrow>
     m k = Some r \<or>
     (\<exists>cpu \<in> set cpus. cpu_ID cpu = k \<and> sys_health r = healthRule (Health (cpu_Status cpu)))"
  by (induction cpus arbitrary: m) (fastforce simp add: Let_def healthRule_def split: if_splits)+

lemma tempLoop_health:
  "tempLoop ts m k = Some r \<Longrightarrow>
     m k = Some r \<or>
     (\<exists>t \<in> set ts. temp_Name t = k \<and> sn_health r = healthRule (Health (temp_Status t)))"
  by (induction ts arbitrary: m) (fastforce simp add: Let_def healthRule_def split: if_splits)+

lemma voltLoop_health:
  "voltLoop vs m k = Some r \<Longrightarrow>
     m k = Some r \<or>
     (\<exists>v \<in> set vs. volt_Name v = k \<and> sn_health r = healthRule (Health (volt_Status v)))"
  by (induction vs arbitrary: m) (fastforce simp add: Let_def healthRule_def split: if_splits)+

lemma psuLoop_health:
  "snd (psuLoop psus n m) k = Some r \<Longrightarrow>
     m k = Some r \<or>
     (\<exists>p \<in> set psus. psu_Name p = k \<and> rd_health r = healthRule (Health (psu_Status p)))"
  by (induction psus arbitrary: n m) (fastforce simp add: Let_def healthRule_def split: if_splits)+

lemma fanLoop_health:
  "fanLoop fs m k = Some r \<Longrightarrow>
     m k = Some r \<or>
     (\<exists>f \<in> set fs. fan_Name f = k \<and> fm_health r = healthRule (Health (fan_Status f)))"
  by (induction fs arbitrary: m) (fastforce simp add: Let_def healthRule_def split: if_splits)+

lemma cpuLoop_dom: "dom (cpuLoop ps cpus m) = dom m \<union> cpu_ID ` set cpus"
  by (induction cpus arbitrary: m) (auto simp add: Let_def)

lemma cpuLoop_nonempty: "cpuLoop ps (cpu # cpus) m \<noteq> Map.empty"
proof -
  have "cpu_ID cpu \<in> dom (cpuLoop ps (cpu # cpus) m)"
    by (simp only: cpuLoop_dom) simp
  then show ?thesis by auto
qed

text \<open>
  After an update that read a non-empty processor list, the entry under the identifier
  of the first processor has the health that the rule gives for the memory status.
\<close>

lemma memory_health:
  assumes "SystemCollector_Update b cl c = Returns e c'" and "Service cl = Some h"
    and "SystemsList b h = Inr (sys # others)" and "Processors_reply sys = Inr (cpu # cpus)"
  shows "map_option sys_health (sys_readings c' (cpu_ID cpu))
           = Some (healthRule (Health (mem_Status (Memory sys))))"
  using assms cpuLoop_nonempty [of "if PowerState sys = ''On'' then 1 else 0" cpu cpus Map.empty]
  by (auto simp add: SystemCollector_Update_def RecordScrapeTime_def deferUnlock_def Lock_def
      Unlock_def Let_def healthRule_def simp del: cpuLoop.simps split: if_splits)

text \<open>
  C5, as amended. The rule maps "OK" to 1, any other non-empty status text to 0 and the
  empty status to 2, so the five inputs give 2, 1, 0, 0, 0. It is the mapping of the four
  collectors that report a health: the system collector (for each processor and for the
  memory), the sensors collector (for temperatures and for voltages), the power
  collector and the fans collector. The telemetry collector reports no health.
\<close>

theorem health_mapping_four_variants:
  "healthRule '''' = 2 \<and> healthRule ''OK'' = 1 \<and> healthRule ''Warning'' = 0 \<and>
   healthRule ''Critical'' = 0 \<and> healthRule ''anything-else'' = 0 \<and>
   (cpuLoop ps cpus ma ka = Some ra \<longrightarrow>
      ma ka = Some ra \<or>
      (\<exists>cpu \<in> set cpus. cpu_ID cpu = ka \<and> sys_health ra = healthRule (Health (cpu_Status cpu)))) \<and>
   (SystemCollector_Update b cl c = Returns e c' \<and> Service cl = Some h \<and>
    SystemsList b h = Inr (sys # others) \<and> Processors_reply sys = Inr (cpu0 # cpus0) \<longrightarrow>
      map_option sys_health (sys_readings c' (cpu_ID cpu0))
        = Some (healthRule (Health (mem_Status (Memory sys))))) \<and>
   (tempLoop ts mb kb = Some rb \<longrightarrow>
      mb kb = Some rb \<or>
      (\<exists>t \<in> set ts. temp_Name t = kb \<and> sn_health rb = healthRule (Health (temp_Status t)))) \<and>
   (voltLoop vs mc kc = Some rc \<longrightarrow>
      mc kc = Some rc \<or>
      (\<exists>v \<in> set vs. volt_Name v = kc \<and> sn_health rc = healthRule (Health (volt_Status v)))) \<and>
   (snd (psuLoop psus n md) kd = Some rd \<longrightarrow>
      md kd = Some rd \<or>
      (\<exists>p \<in> set psus. psu_Name p = kd \<and> rd_health rd = healthRule (Health (psu_Status p)))) \<and>
   (fanLoop fs me ke = Some re \<longrightarrow>
      me ke = Some re \<or>
      (\<exists>f \<in> set fs. fan_Name f = ke \<and> fm_health re = healthRule (Health (fan_Status f))))"
proof (intro conjI impI)
  show "healthRule '''' = 2" "healthRule ''OK'' = 1" "healthRule ''Warning'' = 0"
    "healthRule ''Critical'' = 0" "healthRule ''anything-else'' = 0"
    by (simp_all add: healthRule_def)
next
  assume "cpuLoop ps cpus ma ka = Some ra"
  then show "ma ka = Some ra \<or>
      (\<exists>cpu \<in> set cpus. cpu_ID cpu = ka \<and> sys_health ra = healthRule (Health (cpu_Status cpu)))"
    by (rule cpuLoop_health)
next
  assume "SystemCollector_Update b cl c = Returns e c' \<and> Service cl = Some h \<and>
    SystemsList b h = Inr (sys # others) \<and> Processors_reply sys = Inr (cpu0 # cpus0)"
  then show "map_option sys_health (sys_readings c' (cpu_ID cpu0))
        = Some (healthRule (Health (mem_Status (Memory sys))))"
    using memory_health by blast
next
  assume "tempLoop ts mb kb = Some rb"
  then show "mb kb = Some rb \<or>
      (\<exists>t \<in> set ts. temp_Name t = kb \<and> sn_health rb = healthRule (Health (temp_Status t)))"
    by (rule tempLoop_health)
next
  assume "voltLoop vs mc kc = Some rc"
  then show "mc kc = Some rc \<or>
      (\<exists>v \<in> set vs. volt_Name v = kc \<and> sn_health rc = healthRule (Health (volt_Status v)))"
    by (rule voltLoop_health)
next
  assume "snd (psuLoop psus n md) kd = Some rd"
  then show "md kd = Some rd \<or>
      (\<exists>p \<in> set psus. psu_Name p = kd \<and> rd_health rd = healthRule (Health (psu_Status p)))"
    by (rule psuLoop_health)
next
  assume "fanLoop fs me ke = Some re"
  then show "me ke = Some re \<or>
      (\<exists>f \<in> set fs. fan_Name f = ke \<and> fm_health re = healthRule (Health (fan_Status f)))"
    by (rule fanLoop_health)
qed

theorem health_mapping_four_variants_witness:
  "(\<exists>r. cpuLoop 1 [cpuA, cpuB] Map.empty ''CPU1'' = Some r \<and> sys_health r = 0) \<and>
   map_option sys_health (sys_readings scrapedSystem ''CPU1'') = Some 1 \<and>
   (\<exists>r. tempLoop [inlet] Map.empty ''Inlet'' = Some r \<and> sn_health r = 1) \<and>
   (\<exists>r. voltLoop [rail] Map.empty ''12V'' = Some r \<and> sn_health r = 2) \<and>
   (\<exists>r. snd (psuLoop [psu1] 0 Map.empty) ''PSU1'' = Some r \<and> rd_health r = 1) \<and>
   (\<exists>r. fanLoop [fan1] Map.empty ''Fan1'' = Some r \<and> fm_health r = 0)"
proof -
  obtain r1 where a1: "cpuLoop 1 [cpuA, cpuB] Map.empty ''CPU1'' = Some r1"
    by (simp add: cpuA_def cpuB_def)
  have "sys_health r1 = 0"
    using health_mapping_four_variants
      [where ps = 1 and cpus = "[cpuA, cpuB]" and ma = Map.empty and ka = "''CPU1''" and ra = r1]
      a1
    by (auto simp add: cpuA_def cpuB_def criticalStatus_def okStatus_def)
  with a1 have w1: "\<exists>r. cpuLoop 1 [cpuA, cpuB] Map.empty ''CPU1'' = Some r \<and> sys_health r = 0"
    by blast
  have a2: "SystemCollector_Update systemBackend session0 NewSystemCollector
              = Returns None scrapedSystem \<and>
            Service session0 = Some 0 \<and> SystemsList systemBackend 0 = Inr (system0 # []) \<and>
            Processors_reply system0 = Inr (cpuA # [cpuB])"
    by (auto simp add: SystemCollector_Update_def systemBackend_def session0_def
        NewSystemCollector_def scrapedSystem_def RecordScrapeTime_def Lock_def Unlock_def
        deferUnlock_def system0_def cpuA_def cpuB_def okStatus_def criticalStatus_def
        Sprintf_f0_def Sprintf_d_def Itoa.simps digit_def)
  have "map_option sys_health (sys_readings scrapedSystem (cpu_ID cpuA))
          = Some (healthRule (Health (mem_Status (Memory system0))))"
    using health_mapping_four_variants
      [where b = systemBackend and cl = session0 and c = NewSystemCollector and e = None
         and c' = scrapedSystem and h = 0 and sys = system0 and others = "[]"
         and ?cpu0.0 = cpuA and ?cpus0.0 = "[cpuB]"]
      a2
    by simp
  then have w2: "map_option sys_health (sys_readings scrapedSystem ''CPU1'') = Some 1"
    by (simp add: cpuA_def system0_def okStatus_def healthRule_def)
  obtain r3 where a3: "tempLoop [inlet] Map.empty ''Inlet'' = Some r3"
    by (simp add: inlet_def)
  have "sn_health r3 = 1"
    using health_mapping_four_variants
      [where ts = "[inlet]" and mb = Map.empty and kb = "''Inlet''" and rb = r3] a3
    by (auto simp add: inlet_def okStatus_def)
  with a3 have w3: "\<exists>r. tempLoop [inlet] Map.empty ''Inlet'' = Some r \<and> sn_health r = 1"
    by blast
  obtain r4 where a4: "voltLoop [rail] Map.empty ''12V'' = Some r4"
    by (simp add: rail_def)
  have "sn_health r4 = 2"
    using health_mapping_four_variants
      [where vs = "[rail]" and mc = Map.empty and kc = "''12V''" and rc = r4] a4
    by (auto simp add: rail_def)
  with a4 have w4: "\<exists>r. voltLoop [rail] Map.empty ''12V'' = Some r \<and> sn_health r = 2"
    by blast
  obtain r5 where a5: "snd (psuLoop [psu1] 0 Map.empty) ''PSU1'' = Some r5"
    by (simp add: psu1_def)
  have "rd_health r5 = 1"
    using health_mapping_four_variants
      [where psus = "[psu1]" and n = 0 and md = Map.empty and kd = "''PSU1''" and rd = r5] a5
    by (auto simp add: psu1_def okStatus_def)
  with a5 have w5: "\<exists>r. snd (psuLoop [psu1] 0 Map.empty) ''PSU1'' = Some r \<and> rd_health r = 1"
    by blast
  obtain r6 where a6: "fanLoop [fan1] Map.empty ''Fan1'' = Some r6"
    by (simp add: fan1_def)
  have "fm_health r6 = 0"
    using health_mapping_four_variants
      [where fs = "[fan1]" and me = Map.empty and ke = "''Fan1''" and re = r6] a6
    by (auto simp add: fan1_def)
  with a6 have w6: "\<exists>r. fanLoop [fan1] Map.empty ''Fan1'' = Some r \<and> fm_health r = 0"
    by blast
  from w1 w2 w3 w4 w5 w6 show ?thesis by blast
qed

text \<open>
  C5 as stated fails for the fifth collector. The power-control entry that the telemetry
  collector reads is in critical state, for which the rule gives 0; the collector stores
  the watts only and emits two samples, the consumption and the scrape duration, and no
  health.
\<close>

theorem health_mapping_counterexample:
  "healthRule (Health (pc_Status meter)) = 0 \<and>
   TelemetryCollector_Update meteredBackend session0 NewTelemetryCollector
     = Returns None \<lparr>col_mutex = False, scrapeTime = 1 / 4, target = '''', reading = 120\<rparr> \<and>
   TelemetryCollector_Collect
       \<lparr>col_mutex = False, scrapeTime = 1 / 4, target = '''', reading = 120\<rparr>
     = Returns {Sample ''ipmi_telemetry_power_consumption_watts'' [] 120,
                Sample ''ipmi_telemetry_scrape_duration_seconds'' [] (1 / 4)}
         \<lparr>col_mutex = False, scrapeTime = 1 / 4, target = '''', reading = 120\<rparr>"
  by (auto simp add: healthRule_def meter_def criticalStatus_def TelemetryCollector_Update_def
      TelemetryCollector_Collect_def meteredBackend_def session0_def NewTelemetryCollector_def
      GetMainChassis_def locked_def meteredChassis_def Lock_def Unlock_def deferUnlock_def
      RecordScrapeTime_def)

section \<open>The power collector keys its readings by name\<close>

lemma psuLoop_named: "psuLoop psus n m = psuLoop (named psus) n m"
  by (induction psus arbitrary: n m) (simp_all add: named_def Let_def)

lemma psuLoop_count: "fst (psuLoop psus n m) = n + length (named psus)"
  by (induction psus arbitrary: n m) (simp_all add: named_def Let_def)

lemma psuLoop_dom: "dom (snd (psuLoop psus n m)) = dom m \<union> psu_Name ` set (named psus)"
  by (induction psus arbitrary: n m) (auto simp add: named_def Let_def)

lemma psuLoop_append:
  "psuLoop (xs @ ys) n m = psuLoop ys (fst (psuLoop xs n m)) (snd (psuLoop xs n m))"
  by (induction xs arbitrary: n m) (simp_all add: Let_def)

lemma psuLoop_other:
  "k \<notin> psu_Name ` set (named psus) \<Longrightarrow> snd (psuLoop psus n m) k = m k"
  by (induction psus arbitrary: n m) (auto simp add: named_def Let_def)

text \<open>The entry that is the last of its name is the one that stays, with its own ordinal.\<close>

lemma psuLoop_last:
  assumes "psu_Name p \<noteq> ''''" and "psu_Name p \<notin> psu_Name ` set (named ys)"
  shows "snd (psuLoop (xs @ p # ys) n m) (psu_Name p) =
           Some \<lparr>rd_health = healthRule (Health (psu_Status p)),
                 rd_acPower = PowerInputWatts p, rd_dcPower = PowerOutputWatts p,
                 rd_name = ''PSU '' @ Sprintf_d (int (n + length (named xs) + 1))\<rparr>"
  using assms
  by (simp add: psuLoop_append psuLoop_count psuLoop_other Let_def healthRule_def)

lemma named_parts:
  assumes "named psus = xs @ p # ys"
  shows "named xs = xs" and "psu_Name p \<noteq> ''''" and "named ys = ys"
proof -
  have "\<forall>q \<in> set (named psus). psu_Name q \<noteq> ''''"
    by (simp add: named_def)
  with assms have all: "\<forall>q \<in> set (xs @ p # ys). psu_Name q \<noteq> ''''"
    by simp
  then show "named xs = xs" "psu_Name p \<noteq> ''''" "named ys = ys"
    by (simp_all add: named_def)
qed

lemma psuLoop_fewer:
  assumes "\<not> distinct (map psu_Name (named psus))"
  shows "card (dom (snd (psuLoop psus 0 Map.empty))) < length (named psus)"
proof -
  have "dom (snd (psuLoop psus 0 Map.empty)) = set (map psu_Name (named psus))"
    by (simp add: psuLoop_dom)
  moreover have "card (set (map psu_Name (named psus))) \<le> length (map psu_Name (named psus))"
    by (rule card_length)
  moreover have "card (set (map psu_Name (named psus))) \<noteq> length (map psu_Name (named psus))"
    using assms card_distinct by blast
  ultimately show ?thesis by simp
qed

lemma PowerCollector_Update_primary:
  assumes "\<not> col_mutex c" and "GetChassisWithID b ''1'' cl = Returns (Inr ch) cl'"
    and "Power_reply ch = Inr pw"
  shows "PowerCollector_Update b cl c =
           Returns None (c\<lparr>scrapeTime := Elapsed b ''power'',
                            psu_readings := snd (psuLoop (PowerSupplies pw) 0 Map.empty)\<rparr>)"
  using assms
  by (simp add: PowerCollector_Update_def Lock_def Unlock_def deferUnlock_def RecordScrapeTime_def)

text \<open>The fallback scan stores the readings of the chassis it stops at with the same loop.\<close>

lemma scanChassis_stops:
  assumes "\<not> col_mutex c" and "ID ch \<noteq> ''NVMeSSD.0.Group.0.StorageBackplane''"
    and "Power_reply ch = Inr pw" and "named (PowerSupplies pw) \<noteq> []"
  shows "scanChassis (Some ch # rest) c =
           Returns None (c\<lparr>col_mutex := True, queried := queried c @ [ID ch],
                            psu_readings := snd (psuLoop (PowerSupplies pw) 0 (psu_readings c))\<rparr>)"
proof -
  have "fst (psuLoop (PowerSupplies pw) 0 (psu_readings c)) > 0"
    using assms(4) by (simp add: psuLoop_count)
  with assms show ?thesis
    by (simp add: Lock_def split_beta)
qed

text \<open>
  C10. When the primary chassis and its power data are read, the update returns, and its
  snapshot is what the loop gives for the power supplies that have a name: those without
  a name change nothing. The keys are the names. Under a name stays the last power supply
  of that name, labelled with its ordinal among the named ones. So when two named power
  supplies share a name, the snapshot has fewer readings than there are named power
  supplies.
\<close>

theorem PowerCollector_Update_keyed_by_name:
  assumes "\<not> col_mutex c" and "GetChassisWithID b ''1'' cl = Returns (Inr ch) cl'"
    and "Power_reply ch = Inr pw"
  shows "\<exists>c'. PowerCollector_Update b cl c = Returns None c' \<and>
     psu_readings c' = snd (psuLoop (named (PowerSupplies pw)) 0 Map.empty) \<and>
     dom (psu_readings c') = psu_Name ` set (named (PowerSupplies pw)) \<and>
     (\<forall>xs p ys. named (PowerSupplies pw) = xs @ p # ys \<and> psu_Name p \<notin> psu_Name ` set ys \<longrightarrow>
        psu_readings c' (psu_Name p) =
          Some \<lparr>rd_health = healthRule (Health (psu_Status p)),
                rd_acPower = PowerInputWatts p, rd_dcPower = PowerOutputWatts p,
                rd_name = ''PSU '' @ Sprintf_d (int (length xs) + 1)\<rparr>) \<and>
     (\<not> distinct (map psu_Name (named (PowerSupplies pw))) \<longrightarrow>
        card (dom (psu_readings c')) < length (named (PowerSupplies pw)))"
proof -
  let ?m = "snd (psuLoop (PowerSupplies pw) 0 Map.empty)"
  let ?c = "c\<lparr>scrapeTime := Elapsed b ''power'', psu_readings := ?m\<rparr>"
  have ret: "PowerCollector_Update b cl c = Returns None ?c"
    using assms by (rule PowerCollector_Update_primary)
  have m: "?m = snd (psuLoop (named (PowerSupplies pw)) 0 Map.empty)"
    using psuLoop_named [of "PowerSupplies pw" 0 Map.empty] by simp
  have d: "dom ?m = psu_Name ` set (named (PowerSupplies pw))"
    by (simp add: psuLoop_dom)
  have l: "\<forall>xs p ys. named (PowerSupplies pw) = xs @ p # ys \<and> psu_Name p \<notin> psu_Name ` set ys \<longrightarrow>
        ?m (psu_Name p) =
          Some \<lparr>rd_health = healthRule (Health (psu_Status p)),
                rd_acPower = PowerInputWatts p, rd_dcPower = PowerOutputWatts p,
                rd_name = ''PSU '' @ Sprintf_d (int (length xs) + 1)\<rparr>"
  proof (intro allI impI)
    fix xs p ys
    assume a: "named (PowerSupplies pw) = xs @ p # ys \<and> psu_Name p \<notin> psu_Name ` set ys"
    then have parts: "named xs = xs" "psu_Name p \<noteq> ''''" "named ys = ys"
      using named_parts [of "PowerSupplies pw" xs p ys] by simp_all
    with a have "psu_Name p \<notin> psu_Name ` set (named ys)" by simp
    then have "snd (psuLoop (xs @ p # ys) 0 Map.empty) (psu_Name p) =
           Some \<lparr>rd_health = healthRule (Health (psu_Status p)),
                 rd_acPower = PowerInputWatts p, rd_dcPower = PowerOutputWatts p,
                 rd_name = ''PSU '' @ Sprintf_d (int (0 + length (named xs) + 1))\<rparr>"
      using parts(2) by (rule psuLoop_last [rotated])
    with a parts m show "?m (psu_Name p) =
          Some \<lparr>rd_health = healthRule (Health (psu_Status p)),
                rd_acPower = PowerInputWatts p, rd_dcPower = PowerOutputWatts p,
                rd_name = ''PSU '' @ Sprintf_d (int (length xs) + 1)\<rparr>"
      by (simp add: add.commute)
  qed
  have f: "\<not> distinct (map psu_Name (named (PowerSupplies pw))) \<longrightarrow>
        card (dom ?m) < length (named (PowerSupplies pw))"
    using psuLoop_fewer by blast
  have "PowerCollector_Update b cl c = Returns None ?c \<and>
     psu_readings ?c = snd (psuLoop (named (PowerSupplies pw)) 0 Map.empty) \<and>
     dom (psu_readings ?c) = psu_Name ` set (named (PowerSupplies pw)) \<and>
     (\<forall>xs p ys. named (PowerSupplies pw) = xs @ p # ys \<and> psu_Name p \<notin> psu_Name ` set ys \<longrightarrow>
        psu_readings ?c (psu_Name p) =
          Some \<lparr>rd_health = healthRule (Health (psu_Status p)),
                rd_acPower = PowerInputWatts p, rd_dcPower = PowerOutputWatts p,
                rd_name = ''PSU '' @ Sprintf_d (int (length xs) + 1)\<rparr>) \<and>
     (\<not> distinct (map psu_Name (named (PowerSupplies pw))) \<longrightarrow>
        card (dom (psu_readings ?c)) < length (named (PowerSupplies pw)))"
    using ret m d l f by simp
  then show ?thesis by (rule exI)
qed

theorem PowerCollector_Update_keyed_by_name_witness:
  "\<not> col_mutex NewPowerCollector \<and>
   GetChassisWithID twinBackend ''1'' session0 = Returns (Inr twinChassis) session0 \<and>
   Power_reply twinChassis = Inr twinPower \<and>
   map psu_Name (PowerSupplies twinPower) = [''PSU'', '''', ''PSU''] \<and>
   (\<exists>c'. PowerCollector_Update twinBackend session0 NewPowerCollector = Returns None c' \<and>
         dom (psu_readings c') = {''PSU''} \<and>
         map_option rd_name (psu_readings c' ''PSU'') = Some ''PSU 2'' \<and>
         map_option rd_health (psu_readings c' ''PSU'') = Some 0 \<and>
         card (dom (psu_readings c')) < 2 \<and>
         ''PSU 1'' \<notin> rd_name ` ran (psu_readings c'))"
proof -
  have h1: "\<not> col_mutex NewPowerCollector"
    by (simp add: NewPowerCollector_def)
  have h2: "GetChassisWithID twinBackend ''1'' session0 = Returns (Inr twinChassis) session0"
    by (simp add: GetChassisWithID_def GetMainChassis_def locked_def twinBackend_def
        session0_def twinChassis_def)
  have h3: "Power_reply twinChassis = Inr twinPower"
    by (simp add: twinChassis_def)
  have names: "map psu_Name (PowerSupplies twinPower) = [''PSU'', '''', ''PSU'']"
    by (simp add: twinPower_def twinA_def nameless_def twinB_def)
  have nm: "named (PowerSupplies twinPower) = [twinA] @ twinB # []"
    by (simp add: named_def twinPower_def twinA_def nameless_def twinB_def)
  have last: "psu_Name twinB \<notin> psu_Name ` set []"
    by simp
  have twins: "\<not> distinct (map psu_Name (named (PowerSupplies twinPower)))"
    by (simp add: nm twinA_def twinB_def)
  obtain c' where ret: "PowerCollector_Update twinBackend session0 NewPowerCollector = Returns None c'"
    and d: "dom (psu_readings c') = psu_Name ` set (named (PowerSupplies twinPower))"
    and l: "\<forall>xs p ys. named (PowerSupplies twinPower) = xs @ p # ys \<and>
              psu_Name p \<notin> psu_Name ` set ys \<longrightarrow>
              psu_readings c' (psu_Name p) =
                Some \<lparr>rd_health = healthRule (Health (psu_Status p)),
                      rd_acPower = PowerInputWatts p, rd_dcPower = PowerOutputWatts p,
                      rd_name = ''PSU '' @ Sprintf_d (int (length xs) + 1)\<rparr>"
    and f: "\<not> distinct (map psu_Name (named (PowerSupplies twinPower))) \<longrightarrow>
              card (dom (psu_readings c')) < length (named (PowerSupplies twinPower))"
    using PowerCollector_Update_keyed_by_name [OF h1 h2 h3] by blast
  from d nm have d': "dom (psu_readings c') = {''PSU''}"
    by (simp add: twinA_def twinB_def)
  from l nm last have "psu_readings c' (psu_Name twinB) =
                Some \<lparr>rd_health = healthRule (Health (psu_Status twinB)),
                      rd_acPower = PowerInputWatts twinB, rd_dcPower = PowerOutputWatts twinB,
                      rd_name = ''PSU '' @ Sprintf_d (int (length [twinA]) + 1)\<rparr>"
    by blast
  then have r: "map_option rd_name (psu_readings c' ''PSU'') = Some ''PSU 2''"
    "map_option rd_health (psu_readings c' ''PSU'') = Some 0"
    by (simp_all add: twinB_def criticalStatus_def healthRule_def Sprintf_d_def Itoa.simps digit_def)
  from f twins nm have c: "card (dom (psu_readings c')) < 2"
    by simp
  have only: "''PSU 1'' \<notin> rd_name ` ran (psu_readings c')"
  proof
    assume "''PSU 1'' \<in> rd_name ` ran (psu_readings c')"
    then obtain k v where kv: "psu_readings c' k = Some v" and v: "rd_name v = ''PSU 1''"
      by (auto simp add: ran_def)
    from kv d' have "k = ''PSU''" by auto
    with kv r(1) v show False by simp
  qed
  from h1 h2 h3 names ret d' r c only show ?thesis by blast
qed

section \<open>One scrape of a target\<close>

lemma setTargets_new: "setTargets t newCollectors = Returns () (bound t)"
  by (simp add: newCollectors_def bound_def setTarget_def Lock_def Unlock_def deferUnlock_def
      NewSystemCollector_def NewSensorCollector_def NewPowerCollector_def NewFansCollector_def
      NewTelemetryCollector_def)

text \<open>An update that returns has released the mutex of its collector.\<close>

lemma RecordScrapeTime_Returns:
  "RecordScrapeTime b n out = Returns e c' \<Longrightarrow> \<not> col_mutex c'"
  by (cases out) (auto simp add: RecordScrapeTime_def split: if_splits)

lemma Update_Returns_idle: "Update b cl col = Returns e col' \<Longrightarrow> idle col'"
proof (cases col)
  case (SystemC c)
  assume "Update b cl col = Returns e col'"
  with SystemC obtain c' where u: "SystemCollector_Update b cl c = Returns e c'"
    and v: "col' = SystemC c'"
    by (cases "SystemCollector_Update b cl c") auto
  from u have "\<not> col_mutex c'"
    unfolding SystemCollector_Update_def by (rule RecordScrapeTime_Returns)
  with v show ?thesis by simp
next
  case (SensorC c)
  assume "Update b cl col = Returns e col'"
  with SensorC obtain c' where u: "SensorCollector_Update b cl c = Returns e c'"
    and v: "col' = SensorC c'"
    by (cases "SensorCollector_Update b cl c") auto
  from u have "\<not> col_mutex c'"
    unfolding SensorCollector_Update_def by (rule RecordScrapeTime_Returns)
  with v show ?thesis by simp
next
  case (PowerC c)
  assume "Update b cl col = Returns e col'"
  with PowerC obtain c' where u: "PowerCollector_Update b cl c = Returns e c'"
    and v: "col' = PowerC c'"
    by (cases "PowerCollector_Update b cl c") auto
  from u have "\<not> col_mutex c'"
    unfolding PowerCollector_Update_def by (rule RecordScrapeTime_Returns)
  with v show ?thesis by simp
next
  case (FansC c)
  assume "Update b cl col = Returns e col'"
  with FansC obtain c' where u: "FansCollector_Update b cl c = Returns e c'"
    and v: "col' = FansC c'"
    by (cases "FansCollector_Update b cl c") auto
  from u have "\<not> col_mutex c'"
    unfolding FansCollector_Update_def by (rule RecordScrapeTime_Returns)
  with v show ?thesis by simp
next
  case (TelemetryC c)
  assume "Update b cl col = Returns e col'"
  with TelemetryC obtain c' where u: "TelemetryCollector_Update b cl c = Returns e c'"
    and v: "col' = TelemetryC c'"
    by (cases "TelemetryCollector_Update b cl c") auto
  from u have "\<not> col_mutex c'"
    unfolding TelemetryCollector_Update_def by (rule RecordScrapeTime_Returns)
  with v show ?thesis by simp
qed

lemma Collect_idle: "idle col \<Longrightarrow> \<exists>S. Collect col = Returns S col"
  by (cases col)
     (simp_all add: SystemCollector_Collect_def SensorCollector_Collect_def
        PowerCollector_Collect_def FansCollector_Collect_def TelemetryCollector_Collect_def
        Lock_def Unlock_def deferUnlock_def)

lemma collectAll_idle: "list_all idle cols \<Longrightarrow> \<exists>S. collectAll cols = Returns S ()"
proof (induction cols)
  case Nil
  then show ?case by simp
next
  case (Cons col cols)
  then obtain S1 S2 where "Collect col = Returns S1 col" "collectAll cols = Returns S2 ()"
    using Collect_idle by fastforce
  then show ?case by simp
qed

lemma join_returned: "join (map (\<lambda>(e, c). Returns e c) results) = Returns results ()"
  by (induction results) auto

lemma returned_idle:
  "map (Update b cl) cols = map (\<lambda>(e, c). Returns e c) results \<Longrightarrow>
     list_all idle (map snd results)"
proof (induction cols arbitrary: results)
  case Nil
  then show ?case by simp
next
  case (Cons col cols)
  then obtain e c rest where d: "results = (e, c) # rest"
    by (cases results) auto
  with Cons.prems have "Update b cl col = Returns e c"
    and "map (Update b cl) cols = map (\<lambda>(e, c). Returns e c) rest"
    by simp_all
  with Cons.IH d show ?case
    using Update_Returns_idle by simp
qed

lemma updateErrors_logged:
  "(Some err, col) \<in> set results \<Longrightarrow>
     (''error updating collector '' @ typeName col @ '' for target '' @ t @ '': '' @ err)
       \<in> set (updateErrors t results)"
  by (induction t results rule: updateErrors.induct) auto

text \<open>
  C7. Once the client is there, whatever the five updates return, with an error or
  without: the scrape goes on to the collection, what it emits is what the five
  collectors give, and the errors of the updates are in the log and nowhere else.
\<close>

theorem collectTarget_update_errors_only_logged:
  assumes "getClient b t s = Returns (Inr client) s1"
    and "map (Update b client) (bound t) = map (\<lambda>(e, c). Returns e c) results"
  shows "\<exists>S. collectAll (map snd results) = Returns S () \<and>
             collectTarget b t s = Returns \<lparr>logged = updateErrors t results, emitted = S\<rparr> s1 \<and>
             (\<forall>err col. (Some err, col) \<in> set results \<longrightarrow>
                (''error updating collector '' @ typeName col @ '' for target '' @ t @ '': '' @ err)
                  \<in> set (updateErrors t results))"
proof -
  obtain S where "collectAll (map snd results) = Returns S ()"
    using returned_idle [OF assms(2)] collectAll_idle by blast
  then show ?thesis
    using assms updateErrors_logged
    by (simp add: collectTarget_def setTargets_new join_returned)
qed

theorem collectTarget_update_errors_only_logged_witness:
  "getClient downBackend ''bmc1'' sherlock0
     = Returns (Inr session0)
         (sherlock0\<lparr>clients := [''bmc1'' \<mapsto> session0], dialled := [''https://bmc1'']\<rparr>) \<and>
   Update downBackend session0 (PowerC (NewPowerCollector\<lparr>target := ''bmc1''\<rparr>))
     = Returns (Some ''failed to get any chassis: connection refused'')
         (PowerC (NewPowerCollector\<lparr>target := ''bmc1''\<rparr>)) \<and>
   collectTarget downBackend ''bmc1'' sherlock0
     = Returns
         \<lparr>logged = [''error updating collector *collector.PowerCollector for target bmc1: failed to get any chassis: connection refused''],
          emitted = {Sample ''ipmi_system_scrape_duration_seconds'' [] 0,
                     Sample ''ipmi_sensor_scrape_duration_seconds'' [] 0,
                     Sample ''ipmi_power_scrape_duration_seconds'' [] 0,
                     Sample ''ipmi_fan_scrape_duration_seconds'' [] 0,
                     Sample ''ipmi_telemetry_scrape_duration_seconds'' [] 0}\<rparr>
         (sherlock0\<lparr>clients := [''bmc1'' \<mapsto> session0], dialled := [''https://bmc1'']\<rparr>)"
proof -
  let ?s1 = "sherlock0\<lparr>clients := [''bmc1'' \<mapsto> session0], dialled := [''https://bmc1'']\<rparr>"
  let ?results = "[(None, SystemC (NewSystemCollector\<lparr>target := ''bmc1''\<rparr>)),
                   (None, SensorC (NewSensorCollector\<lparr>target := ''bmc1''\<rparr>)),
                   (Some ''failed to get any chassis: connection refused'',
                    PowerC (NewPowerCollector\<lparr>target := ''bmc1''\<rparr>)),
                   (None, FansC (NewFansCollector\<lparr>target := ''bmc1''\<rparr>)),
                   (None, TelemetryC (NewTelemetryCollector\<lparr>target := ''bmc1''\<rparr>))]"
  have h1: "getClient downBackend ''bmc1'' sherlock0 = Returns (Inr session0) ?s1"
    by (simp add: getClient_def sherlock0_def NewSherlockCollector_def NewClient_def connect_def
        downBackend_def session0_def cfg0_def Let_def)
  have sys: "Update downBackend session0 (SystemC (NewSystemCollector\<lparr>target := ''bmc1''\<rparr>))
               = Returns None (SystemC (NewSystemCollector\<lparr>target := ''bmc1''\<rparr>))"
    by (simp add: SystemCollector_Update_def RecordScrapeTime_def downBackend_def session0_def
        NewSystemCollector_def)
  have chassis: "GetChassisWithID downBackend ''1'' session0
                   = Returns (Inl ''connection refused'') session0"
    "GetMainChassis downBackend session0 = Returns (Inl ''connection refused'') session0"
    "GetChassis downBackend session0 = Returns ([], Some ''connection refused'') session0"
    by (simp_all add: GetChassisWithID_def GetMainChassis_def GetChassis_def locked_def
        isAuthError_def downBackend_def session0_def)
  have sen: "Update downBackend session0 (SensorC (NewSensorCollector\<lparr>target := ''bmc1''\<rparr>))
               = Returns None (SensorC (NewSensorCollector\<lparr>target := ''bmc1''\<rparr>))"
    by (simp add: SensorCollector_Update_def RecordScrapeTime_def Lock_def Unlock_def chassis
        NewSensorCollector_def) (simp add: downBackend_def)
  have pow: "Update downBackend session0 (PowerC (NewPowerCollector\<lparr>target := ''bmc1''\<rparr>))
               = Returns (Some ''failed to get any chassis: connection refused'')
                   (PowerC (NewPowerCollector\<lparr>target := ''bmc1''\<rparr>))"
    by (simp add: PowerCollector_Update_def tryAlternativeChassis_def RecordScrapeTime_def
        Lock_def Unlock_def chassis NewPowerCollector_def) (simp add: downBackend_def)
  have fan: "Update downBackend session0 (FansC (NewFansCollector\<lparr>target := ''bmc1''\<rparr>))
               = Returns None (FansC (NewFansCollector\<lparr>target := ''bmc1''\<rparr>))"
    by (simp add: FansCollector_Update_def RecordScrapeTime_def Lock_def Unlock_def chassis
        NewFansCollector_def) (simp add: downBackend_def)
  have tel: "Update downBackend session0 (TelemetryC (NewTelemetryCollector\<lparr>target := ''bmc1''\<rparr>))
               = Returns None (TelemetryC (NewTelemetryCollector\<lparr>target := ''bmc1''\<rparr>))"
    by (simp add: TelemetryCollector_Update_def RecordScrapeTime_def Lock_def Unlock_def chassis
        NewTelemetryCollector_def) (simp add: downBackend_def)
  have h2: "map (Update downBackend session0) (bound ''bmc1'')
              = map (\<lambda>(e, c). Returns e c) ?results"
    unfolding bound_def using sys sen pow fan tel by simp
  obtain S where S: "collectAll (map snd ?results) = Returns S ()"
    and ct: "collectTarget downBackend ''bmc1'' sherlock0
               = Returns \<lparr>logged = updateErrors ''bmc1'' ?results, emitted = S\<rparr> ?s1"
    using collectTarget_update_errors_only_logged [OF h1 h2] by blast
  have "collectAll (map snd ?results)
          = Returns {Sample ''ipmi_system_scrape_duration_seconds'' [] 0,
                     Sample ''ipmi_sensor_scrape_duration_seconds'' [] 0,
                     Sample ''ipmi_power_scrape_duration_seconds'' [] 0,
                     Sample ''ipmi_fan_scrape_duration_seconds'' [] 0,
                     Sample ''ipmi_telemetry_scrape_duration_seconds'' [] 0} ()"
    by (auto simp add: SystemCollector_Collect_def SensorCollector_Collect_def
        PowerCollector_Collect_def FansCollector_Collect_def TelemetryCollector_Collect_def
        Lock_def Unlock_def deferUnlock_def NewSystemCollector_def NewSensorCollector_def
        NewPowerCollector_def NewFansCollector_def NewTelemetryCollector_def)
  with S have "S = {Sample ''ipmi_system_scrape_duration_seconds'' [] 0,
                     Sample ''ipmi_sensor_scrape_duration_seconds'' [] 0,
                     Sample ''ipmi_power_scrape_duration_seconds'' [] 0,
                     Sample ''ipmi_fan_scrape_duration_seconds'' [] 0,
                     Sample ''ipmi_telemetry_scrape_duration_seconds'' [] 0}"
    by simp
  with ct h1 pow show ?thesis by simp
qed

section \<open>The target parameter\<close>

lemma Get_absent: "k \<notin> fst ` set q \<Longrightarrow> Get k q = ''''"
  by (induction k q rule: Get.induct) auto

lemma normalize_https: "normalizeTarget (''https://'' @ h) = h"
  by (simp add: normalizeTarget_def TrimPrefix_def)

lemma normalize_http: "normalizeTarget (''http://'' @ h) = TrimPrefix h ''https://''"
  by (simp add: normalizeTarget_def TrimPrefix_def)

lemma normalize_bare:
  "\<not> HasPrefix t ''http://'' \<Longrightarrow> \<not> HasPrefix t ''https://'' \<Longrightarrow> normalizeTarget t = t"
  by (simp add: normalizeTarget_def TrimPrefix_def)

lemma handler_missing:
  "Get ''target'' (query r) = '''' \<Longrightarrow>
   metricsHandler b r s = Returns \<lparr>status = 400,
      body = ''Error: 'target' parameter is required (e.g. ?target=bmc.example.com)'' @ [CHR 0x0A],
      samples = {}\<rparr> s"
  by (simp add: metricsHandler_def)

lemma handler_present:
  "Get ''target'' (query r) \<noteq> '''' \<Longrightarrow>
   metricsHandler b r s =
     map_outcome (\<lambda>scrape. \<lparr>status = 200, body = '''', samples = emitted scrape\<rparr>) id
       (collectTarget b (normalizeTarget (Get ''target'' (query r))) s)"
  by (simp add: metricsHandler_def split: outcome.splits)

text \<open>
  C8. A request whose target parameter is absent or empty is answered with status 400
  and a plain-text explanation, with no samples; the main collector is left as it was
  (no client is created, no connection attempted), and the answer is the same whatever
  the remote is. A request with a target is served by \<open>collectTarget\<close> on the target
  with its scheme prefix removed: "https://" or "http://" in front of a host name is
  stripped, and a target without a prefix is used as it is.
\<close>

theorem metricsHandler_target_parameter:
  "(''target'' \<notin> fst ` set (query r) \<or> Get ''target'' (query r) = '''' \<longrightarrow>
      metricsHandler b r s = Returns \<lparr>status = 400,
        body = ''Error: 'target' parameter is required (e.g. ?target=bmc.example.com)'' @ [CHR 0x0A],
        samples = {}\<rparr> s) \<and>
   (Get ''target'' (query r) \<noteq> '''' \<longrightarrow>
      metricsHandler b r s =
        map_outcome (\<lambda>scrape. \<lparr>status = 200, body = '''', samples = emitted scrape\<rparr>) id
          (collectTarget b (normalizeTarget (Get ''target'' (query r))) s)) \<and>
   normalizeTarget (''https://'' @ h) = h \<and>
   normalizeTarget (''http://'' @ h) = TrimPrefix h ''https://'' \<and>
   (\<not> HasPrefix h ''https://'' \<longrightarrow> normalizeTarget (''http://'' @ h) = h) \<and>
   (\<not> HasPrefix t ''http://'' \<and> \<not> HasPrefix t ''https://'' \<longrightarrow> normalizeTarget t = t)"
proof (intro conjI impI)
  assume "''target'' \<notin> fst ` set (query r) \<or> Get ''target'' (query r) = ''''"
  then have "Get ''target'' (query r) = ''''"
    using Get_absent by blast
  then show "metricsHandler b r s = Returns \<lparr>status = 400,
        body = ''Error: 'target' parameter is required (e.g. ?target=bmc.example.com)'' @ [CHR 0x0A],
        samples = {}\<rparr> s"
    by (rule handler_missing)
next
  assume "Get ''target'' (query r) \<noteq> ''''"
  then show "metricsHandler b r s =
        map_outcome (\<lambda>scrape. \<lparr>status = 200, body = '''', samples = emitted scrape\<rparr>) id
          (collectTarget b (normalizeTarget (Get ''target'' (query r))) s)"
    by (rule handler_present)
next
  show "normalizeTarget (''https://'' @ h) = h"
    by (rule normalize_https)
next
  show "normalizeTarget (''http://'' @ h) = TrimPrefix h ''https://''"
    by (rule normalize_http)
next
  assume bare: "\<not> HasPrefix h ''https://''"
  have "normalizeTarget (''http://'' @ h) = TrimPrefix h ''https://''"
    by (rule normalize_http)
  also from bare have "TrimPrefix h ''https://'' = h"
    by (simp only: TrimPrefix_def if_False)
  finally show "normalizeTarget (''http://'' @ h) = h" .
next
  assume "\<not> HasPrefix t ''http://'' \<and> \<not> HasPrefix t ''https://''"
  then show "normalizeTarget t = t"
    by (simp add: normalize_bare)
qed

theorem metricsHandler_target_parameter_witness:
  "(\<exists>resp. metricsHandler downBackend noTarget sherlock0 = Returns resp sherlock0 \<and>
           metricsHandler meteredBackend noTarget sherlock0 = Returns resp sherlock0 \<and>
           metricsHandler downBackend emptyTarget sherlock0 = Returns resp sherlock0 \<and>
           400 \<le> status resp \<and> status resp < 500 \<and> samples resp = {}) \<and>
   clients sherlock0 = Map.empty \<and> dialled sherlock0 = [] \<and>
   metricsHandler downBackend withScheme sherlock0 =
     map_outcome (\<lambda>scrape. \<lparr>status = 200, body = '''', samples = emitted scrape\<rparr>) id
       (collectTarget downBackend ''bmc1'' sherlock0) \<and>
   normalizeTarget ''https://bmc1'' = ''bmc1'' \<and>
   normalizeTarget ''http://bmc1'' = ''bmc1'' \<and>
   normalizeTarget ''bmc1'' = ''bmc1''"
proof -
  let ?resp = "\<lparr>status = 400,
        body = ''Error: 'target' parameter is required (e.g. ?target=bmc.example.com)'' @ [CHR 0x0A],
        samples = {}\<rparr>"
  have absent: "''target'' \<notin> fst ` set (query noTarget) \<or> Get ''target'' (query noTarget) = ''''"
    by (simp add: noTarget_def)
  have empty: "''target'' \<notin> fst ` set (query emptyTarget) \<or> Get ''target'' (query emptyTarget) = ''''"
    by (simp add: emptyTarget_def)
  have present: "Get ''target'' (query withScheme) \<noteq> ''''"
    and given: "Get ''target'' (query withScheme) = ''https://'' @ ''bmc1''"
    by (simp_all add: withScheme_def)
  have a: "metricsHandler downBackend noTarget sherlock0 = Returns ?resp sherlock0"
    using metricsHandler_target_parameter [of noTarget downBackend sherlock0] absent by blast
  have b: "metricsHandler meteredBackend noTarget sherlock0 = Returns ?resp sherlock0"
    using metricsHandler_target_parameter [of noTarget meteredBackend sherlock0] absent by blast
  have c: "metricsHandler downBackend emptyTarget sherlock0 = Returns ?resp sherlock0"
    using metricsHandler_target_parameter [of emptyTarget downBackend sherlock0] empty by blast
  have w1: "\<exists>resp. metricsHandler downBackend noTarget sherlock0 = Returns resp sherlock0 \<and>
           metricsHandler meteredBackend noTarget sherlock0 = Returns resp sherlock0 \<and>
           metricsHandler downBackend emptyTarget sherlock0 = Returns resp sherlock0 \<and>
           400 \<le> status resp \<and> status resp < 500 \<and> samples resp = {}"
    using a b c by (intro exI [of _ ?resp]) simp
  have w2: "clients sherlock0 = Map.empty \<and> dialled sherlock0 = []"
    by (simp add: sherlock0_def NewSherlockCollector_def)
  have n1: "normalizeTarget (''https://'' @ ''bmc1'') = ''bmc1''"
    using metricsHandler_target_parameter [where h = "''bmc1''"] by blast
  have "\<not> HasPrefix ''bmc1'' ''https://''"
    by simp
  then have n2: "normalizeTarget (''http://'' @ ''bmc1'') = ''bmc1''"
    using metricsHandler_target_parameter [where h = "''bmc1''"] by blast
  have "\<not> HasPrefix ''bmc1'' ''http://'' \<and> \<not> HasPrefix ''bmc1'' ''https://''"
    by simp
  then have n3: "normalizeTarget ''bmc1'' = ''bmc1''"
    using metricsHandler_target_parameter [where t = "''bmc1''"] by blast
  have "metricsHandler downBackend withScheme sherlock0 =
     map_outcome (\<lambda>scrape. \<lparr>status = 200, body = '''', samples = emitted scrape\<rparr>) id
       (collectTarget downBackend (normalizeTarget (Get ''target'' (query withScheme))) sherlock0)"
    using metricsHandler_target_parameter [of withScheme downBackend sherlock0] present by blast
  with given n1 have w3: "metricsHandler downBackend withScheme sherlock0 =
     map_outcome (\<lambda>scrape. \<lparr>status = 200, body = '''', samples = emitted scrape\<rparr>) id
       (collectTarget downBackend ''bmc1'' sherlock0)"
    by simp
  from w1 w2 w3 n1 n2 n3 show ?thesis by simp
qed

section \<open>Failing empty\<close>

text \<open>
  The sensors, fans and telemetry collectors clear their snapshot before they ask the
  client for anything, so a failed fetch leaves the snapshot empty, whatever it held.
\<close>

lemma SensorCollector_Update_no_chassis:
  assumes "\<not> col_mutex c" and "GetChassisWithID b ''1'' cl = Returns (Inl err) cl'"
  shows "SensorCollector_Update b cl c
           = Returns None (c\<lparr>scrapeTime := Elapsed b ''sensor'', sn_readings := Map.empty\<rparr>)"
  using assms
  by (simp add: SensorCollector_Update_def Lock_def Unlock_def RecordScrapeTime_def)

lemma SensorCollector_Update_no_thermal:
  assumes "\<not> col_mutex c" and "GetChassisWithID b ''1'' cl = Returns (Inr ch) cl'"
    and "Thermal_reply ch = Inl err"
  shows "SensorCollector_Update b cl c
           = Returns None (c\<lparr>scrapeTime := Elapsed b ''sensor'', sn_readings := Map.empty\<rparr>)"
  using assms
  by (simp add: SensorCollector_Update_def Lock_def Unlock_def RecordScrapeTime_def
      deferUnlock_def)

lemma FansCollector_Update_no_chassis:
  assumes "\<not> col_mutex c" and "GetMainChassis b cl = Returns (Inl err) cl'"
  shows "FansCollector_Update b cl c
           = Returns None (c\<lparr>scrapeTime := Elapsed b ''fan'', fans := Map.empty\<rparr>)"
  using assms
  by (simp add: FansCollector_Update_def Lock_def Unlock_def RecordScrapeTime_def)

lemma TelemetryCollector_Update_no_chassis:
  assumes "\<not> col_mutex c" and "GetMainChassis b cl = Returns (Inl err) cl'"
  shows "TelemetryCollector_Update b cl c
           = Returns None (c\<lparr>scrapeTime := Elapsed b ''telemetry'', reading := 0\<rparr>)"
  using assms
  by (simp add: TelemetryCollector_Update_def Lock_def Unlock_def RecordScrapeTime_def)

text \<open>
  The power collector clears first as well; when the primary chassis and the list of all
  chassis both fail, it returns an error with an empty snapshot.
\<close>

lemma PowerCollector_Update_no_chassis:
  assumes "\<not> col_mutex c" and "GetChassisWithID b ''1'' cl = Returns (Inl err) cl'"
    and "GetChassis b cl' = Returns (chs, Some err') cl''"
  shows "PowerCollector_Update b cl c
           = Returns (Some (''failed to get any chassis: '' @ err'))
               (c\<lparr>scrapeTime := Elapsed b ''power'', psu_readings := Map.empty\<rparr>)"
  using assms
  by (simp add: PowerCollector_Update_def tryAlternativeChassis_def Lock_def Unlock_def
      RecordScrapeTime_def)

section \<open>A scrape with an update that does not return\<close>

text \<open>
  The join waits for every update. With the empty systems list the system collector
  panics, in its own goroutine, and the process ends; with the three chassis of the
  fallback scenario the power collector never returns, and neither does the scrape.
\<close>

lemma join_Panics: "Panics c \<in> set outs \<Longrightarrow> join outs = Panics ()"
proof (induction outs)
  case Nil
  then show ?case by simp
next
  case (Cons out outs)
  show ?case
  proof (cases out)
    case (Returns r c')
    with Cons show ?thesis by auto
  next
    case (Blocks c')
    with Cons show ?thesis by auto
  next
    case (Panics c')
    then show ?thesis by simp
  qed
qed

lemma join_Blocks: "Blocks c \<in> set outs \<Longrightarrow> join outs = Blocks () \<or> join outs = Panics ()"
proof (induction outs)
  case Nil
  then show ?case by simp
next
  case (Cons out outs)
  show ?case
  proof (cases out)
    case (Returns r c')
    with Cons show ?thesis by (cases "join outs") auto
  next
    case (Blocks c')
    then show ?thesis by (cases "join outs") auto
  next
    case (Panics c')
    then show ?thesis by simp
  qed
qed

lemma collectTarget_no_systems_panics:
  "collectTarget noSystemsBackend ''bmc1'' sherlock0
     = Panics (sherlock0\<lparr>clients := [''bmc1'' \<mapsto> session0], dialled := [''https://bmc1'']\<rparr>)"
proof -
  have g: "getClient noSystemsBackend ''bmc1'' sherlock0
             = Returns (Inr session0)
                 (sherlock0\<lparr>clients := [''bmc1'' \<mapsto> session0], dialled := [''https://bmc1'']\<rparr>)"
    by (simp add: getClient_def sherlock0_def NewSherlockCollector_def NewClient_def connect_def
        noSystemsBackend_def session0_def cfg0_def Let_def)
  have "Update noSystemsBackend session0 (SystemC (NewSystemCollector\<lparr>target := ''bmc1''\<rparr>))
          = Panics (SystemC (NewSystemCollector\<lparr>target := ''bmc1''\<rparr>))"
    by (simp add: SystemCollector_Update_def RecordScrapeTime_def noSystemsBackend_def
        session0_def NewSystemCollector_def)
  then have "join (map (Update noSystemsBackend session0) (bound ''bmc1'')) = Panics ()"
    by (simp add: bound_def)
  with g show ?thesis
    by (simp add: collectTarget_def setTargets_new)
qed

lemma collectTarget_fallback_scenario_blocks:
  "collectTarget fallbackBackend ''bmc1'' sherlock0
     = Blocks (sherlock0\<lparr>clients := [''bmc1'' \<mapsto> session0], dialled := [''https://bmc1'']\<rparr>)"
proof -
  have g: "getClient fallbackBackend ''bmc1'' sherlock0
             = Returns (Inr session0)
                 (sherlock0\<lparr>clients := [''bmc1'' \<mapsto> session0], dialled := [''https://bmc1'']\<rparr>)"
    by (simp add: getClient_def sherlock0_def NewSherlockCollector_def NewClient_def connect_def
        fallbackBackend_def session0_def cfg0_def Let_def)
  have sys: "Update fallbackBackend session0 (SystemC (NewSystemCollector\<lparr>target := ''bmc1''\<rparr>))
          = Returns None (SystemC (NewSystemCollector\<lparr>target := ''bmc1''\<rparr>))"
    by (simp add: SystemCollector_Update_def RecordScrapeTime_def fallbackBackend_def
        session0_def NewSystemCollector_def)
  have chassis: "GetChassisWithID fallbackBackend ''1'' session0
                   = Returns (Inl ''main chassis (ID 1) not found'') session0"
    "GetMainChassis fallbackBackend session0
                   = Returns (Inl ''main chassis (ID 1) not found'') session0"
    by (simp_all add: GetChassisWithID_def GetMainChassis_def locked_def fallbackBackend_def
        session0_def entryA_def entryB_def entryC_def)
  have sen: "Update fallbackBackend session0 (SensorC (NewSensorCollector\<lparr>target := ''bmc1''\<rparr>))
          = Returns None (SensorC (NewSensorCollector\<lparr>target := ''bmc1''\<rparr>))"
    by (simp add: SensorCollector_Update_def RecordScrapeTime_def Lock_def Unlock_def chassis
        NewSensorCollector_def) (simp add: fallbackBackend_def)
  have pow: "Update fallbackBackend session0 (PowerC (NewPowerCollector\<lparr>target := ''bmc1''\<rparr>))
          = Blocks (PowerC (NewPowerCollector\<lparr>col_mutex := True, target := ''bmc1'',
                                               queried := [''2'', ''3'']\<rparr>))"
    by (simp add: PowerCollector_Update_def NewPowerCollector_def session0_def fallbackBackend_def
      GetChassisWithID_def GetMainChassis_def locked_def Lock_def Unlock_def
      RecordScrapeTime_def deferUnlock_def tryAlternativeChassis_def GetChassis_def
      entryA_def entryB_def entryC_def noPower_def)
  have fan: "Update fallbackBackend session0 (FansC (NewFansCollector\<lparr>target := ''bmc1''\<rparr>))
          = Returns None (FansC (NewFansCollector\<lparr>target := ''bmc1''\<rparr>))"
    by (simp add: FansCollector_Update_def RecordScrapeTime_def Lock_def Unlock_def chassis
        NewFansCollector_def) (simp add: fallbackBackend_def)
  have tel: "Update fallbackBackend session0 (TelemetryC (NewTelemetryCollector\<lparr>target := ''bmc1''\<rparr>))
          = Returns None (TelemetryC (NewTelemetryCollector\<lparr>target := ''bmc1''\<rparr>))"
    by (simp add: TelemetryCollector_Update_def RecordScrapeTime_def Lock_def Unlock_def chassis
        NewTelemetryCollector_def) (simp add: fallbackBackend_def)
  have "join (map (Update fallbackBackend session0) (bound ''bmc1'')) = Blocks ()"
    unfolding bound_def using sys sen pow fan tel by simp
  with g show ?thesis
    by (simp add: collectTarget_def setTargets_new)
qed

end
